theory Spec2Isabelle
  imports Main "HOL-Library.Word"
begin

unbundle bit_operations_syntax

section \<open>The recovery event TaskAttemptFinishedEvent and its protobuf codec\<close>

text \<open>
  The source is the Java class \<open>org.apache.tez.dag.history.events.TaskAttemptFinishedEvent\<close>:
  its fields, its two constructors, \<open>getEventType\<close>, \<open>toProto\<close>, \<open>fromProto\<close>,
  \<open>toProtoStream\<close>, \<open>fromProtoStream\<close> and the two log URL getters are embedded here.
  Java references are nullable, so every field of a class type is an \<open>option\<close>
  (\<open>None\<close> is \<open>null\<close>); a \<open>long\<close> is a \<open>64 word\<close> and an \<open>int\<close> a \<open>32 word\<close>,
  both read as signed. A thrown exception is the \<open>Inl\<close> branch of a sum.
\<close>

subsection \<open>Exceptions\<close>

text \<open>The exceptions the embedded methods and their collaborators end with.\<close>

datatype exn =
    NullPointerException
  | ArrayIndexOutOfBoundsException int
  | IllegalArgumentException string
  | IOException string

text \<open>\<open>IOException\<close> is the checked exception the methods declare; the others are
  unchecked runtime exceptions.\<close>

fun is_runtime_exception :: "exn \<Rightarrow> bool" where
  "is_runtime_exception NullPointerException = True"
| "is_runtime_exception (ArrayIndexOutOfBoundsException i) = True"
| "is_runtime_exception (IllegalArgumentException s) = True"
| "is_runtime_exception (IOException s) = False"

definition bindE :: "exn + 'a \<Rightarrow> ('a \<Rightarrow> exn + 'b) \<Rightarrow> exn + 'b" where
  "bindE m f = (case m of Inl x \<Rightarrow> Inl x | Inr v \<Rightarrow> f v)"

subsection \<open>The event: fields and constructors\<close>

type_synonym jlong = "64 word"
type_synonym jint = "32 word"
type_synonym byte = "8 word"

record ('tid, 'st, 'err, 'cnt, 'dei, 'tev, 'cid, 'nid) TaskAttemptFinishedEvent =
  taskAttemptId :: "'tid option"
  vertexName :: "string option"
  creationTime :: jlong
  allocationTime :: jlong
  startTime :: jlong
  finishTime :: jlong
  creationCausalTA :: "'tid option"
  state :: "'st option"
  diagnostics :: "string option"
  tezCounters :: "'cnt option"
  error :: "'err option"
  dataEvents :: "'dei list option"
  taGeneratedEvents :: "'tev list option"
  containerId :: "'cid option"
  nodeId :: "'nid option"
  inProgressLogsUrl :: "string option"
  completedLogsUrl :: "string option"
  nodeHttpAddress :: "string option"

text \<open>The full constructor, its eighteen parameters in the order of the source.\<close>

definition newTaskAttemptFinishedEvent ::
  "'tid option \<Rightarrow> string option \<Rightarrow> jlong \<Rightarrow> jlong \<Rightarrow> 'st option \<Rightarrow> 'err option \<Rightarrow>
   string option \<Rightarrow> 'cnt option \<Rightarrow> 'dei list option \<Rightarrow> 'tev list option \<Rightarrow> jlong \<Rightarrow>
   'tid option \<Rightarrow> jlong \<Rightarrow> 'cid option \<Rightarrow> 'nid option \<Rightarrow> string option \<Rightarrow> string option \<Rightarrow>
   string option \<Rightarrow> ('tid, 'st, 'err, 'cnt, 'dei, 'tev, 'cid, 'nid) TaskAttemptFinishedEvent" where
  "newTaskAttemptFinishedEvent taId vertexName' startTime' finishTime' state' error'
     diagnostics' counters dataEvents' taGeneratedEvents' creationTime' creationCausalTA'
     allocationTime' containerId' nodeId' inProgressLogsUrl' completedLogsUrl' nodeHttpAddress' =
   \<lparr> taskAttemptId = taId,
     vertexName = vertexName',
     creationTime = creationTime',
     allocationTime = allocationTime',
     startTime = startTime',
     finishTime = finishTime',
     creationCausalTA = creationCausalTA',
     state = state',
     diagnostics = diagnostics',
     tezCounters = counters,
     error = error',
     dataEvents = dataEvents',
     taGeneratedEvents = taGeneratedEvents',
     containerId = containerId',
     nodeId = nodeId',
     inProgressLogsUrl = inProgressLogsUrl',
     completedLogsUrl = completedLogsUrl',
     nodeHttpAddress = nodeHttpAddress' \<rparr>"

text \<open>The empty constructor assigns nothing: references are \<open>null\<close> and longs are 0,
  Java's initial values.\<close>

definition emptyTaskAttemptFinishedEvent ::
  "('tid, 'st, 'err, 'cnt, 'dei, 'tev, 'cid, 'nid) TaskAttemptFinishedEvent" where
  "emptyTaskAttemptFinishedEvent =
   \<lparr> taskAttemptId = None,
     vertexName = None,
     creationTime = 0,
     allocationTime = 0,
     startTime = 0,
     finishTime = 0,
     creationCausalTA = None,
     state = None,
     diagnostics = None,
     tezCounters = None,
     error = None,
     dataEvents = None,
     taGeneratedEvents = None,
     containerId = None,
     nodeId = None,
     inProgressLogsUrl = None,
     completedLogsUrl = None,
     nodeHttpAddress = None \<rparr>"



definition getInProgressLogsUrl ::
  "('tid, 'st, 'err, 'cnt, 'dei, 'tev, 'cid, 'nid) TaskAttemptFinishedEvent \<Rightarrow> string option" where
  "getInProgressLogsUrl this = inProgressLogsUrl this"

definition getCompletedLogsUrl ::
  "('tid, 'st, 'err, 'cnt, 'dei, 'tev, 'cid, 'nid) TaskAttemptFinishedEvent \<Rightarrow> string option" where
  "getCompletedLogsUrl this = completedLogsUrl this"

subsection \<open>The protobuf message\<close>

text \<open>
  The generated class \<open>TaskAttemptFinishedProto\<close> is not among the source files. It is
  taken with the accessors the source calls and the meaning protobuf gives them: a
  singular field is present or absent (\<open>hasX\<close>), \<open>getX\<close> of an absent field is the
  type's default (the empty string, 0), a builder's \<open>setX\<close> makes the field present,
  and a repeated field is a list that \<open>addX\<close> extends at its end. A field is stored
  as an \<open>option\<close>: \<open>hasX\<close> is \<open>Some\<close>, and \<open>if (proto.hasX()) ... proto.getX()\<close> is
  a case distinction on it.
\<close>

record ('cntp, 'deip, 'tevp) TaskAttemptFinishedProto =
  proto_taskAttemptId :: "string option"
  proto_state :: "jint option"
  proto_creationTime :: "jlong option"
  proto_allocationTime :: "jlong option"
  proto_startTime :: "jlong option"
  proto_finishTime :: "jlong option"
  proto_creationCausalTA :: "string option"
  proto_diagnostics :: "string option"
  proto_errorEnum :: "string option"
  proto_counters :: "'cntp option"
  proto_dataEvents :: "'deip list"
  proto_taGeneratedEvents :: "'tevp list"
  proto_containerId :: "string option"
  proto_nodeId :: "string option"
  proto_nodeHttpAddress :: "string option"

definition newBuilder :: "('cntp, 'deip, 'tevp) TaskAttemptFinishedProto" where
  "newBuilder =
   \<lparr> proto_taskAttemptId = None,
     proto_state = None,
     proto_creationTime = None,
     proto_allocationTime = None,
     proto_startTime = None,
     proto_finishTime = None,
     proto_creationCausalTA = None,
     proto_diagnostics = None,
     proto_errorEnum = None,
     proto_counters = None,
     proto_dataEvents = [],
     proto_taGeneratedEvents = [],
     proto_containerId = None,
     proto_nodeId = None,
     proto_nodeHttpAddress = None \<rparr>"

definition getTaskAttemptId :: "('cntp, 'deip, 'tevp) TaskAttemptFinishedProto \<Rightarrow> string" where
  "getTaskAttemptId p = (case proto_taskAttemptId p of None \<Rightarrow> [] | Some v \<Rightarrow> v)"

definition getState :: "('cntp, 'deip, 'tevp) TaskAttemptFinishedProto \<Rightarrow> jint" where
  "getState p = (case proto_state p of None \<Rightarrow> 0 | Some v \<Rightarrow> v)"

definition getCreationTime :: "('cntp, 'deip, 'tevp) TaskAttemptFinishedProto \<Rightarrow> jlong" where
  "getCreationTime p = (case proto_creationTime p of None \<Rightarrow> 0 | Some v \<Rightarrow> v)"

definition getAllocationTime :: "('cntp, 'deip, 'tevp) TaskAttemptFinishedProto \<Rightarrow> jlong" where
  "getAllocationTime p = (case proto_allocationTime p of None \<Rightarrow> 0 | Some v \<Rightarrow> v)"

definition getStartTime :: "('cntp, 'deip, 'tevp) TaskAttemptFinishedProto \<Rightarrow> jlong" where
  "getStartTime p = (case proto_startTime p of None \<Rightarrow> 0 | Some v \<Rightarrow> v)"

definition getFinishTime :: "('cntp, 'deip, 'tevp) TaskAttemptFinishedProto \<Rightarrow> jlong" where
  "getFinishTime p = (case proto_finishTime p of None \<Rightarrow> 0 | Some v \<Rightarrow> v)"

definition hasCreationCausalTA :: "('cntp, 'deip, 'tevp) TaskAttemptFinishedProto \<Rightarrow> bool" where
  "hasCreationCausalTA p = (proto_creationCausalTA p \<noteq> None)"

definition hasDiagnostics :: "('cntp, 'deip, 'tevp) TaskAttemptFinishedProto \<Rightarrow> bool" where
  "hasDiagnostics p = (proto_diagnostics p \<noteq> None)"

definition hasErrorEnum :: "('cntp, 'deip, 'tevp) TaskAttemptFinishedProto \<Rightarrow> bool" where
  "hasErrorEnum p = (proto_errorEnum p \<noteq> None)"

definition hasCounters :: "('cntp, 'deip, 'tevp) TaskAttemptFinishedProto \<Rightarrow> bool" where
  "hasCounters p = (proto_counters p \<noteq> None)"

definition hasContainerId :: "('cntp, 'deip, 'tevp) TaskAttemptFinishedProto \<Rightarrow> bool" where
  "hasContainerId p = (proto_containerId p \<noteq> None)"

definition hasNodeId :: "('cntp, 'deip, 'tevp) TaskAttemptFinishedProto \<Rightarrow> bool" where
  "hasNodeId p = (proto_nodeId p \<noteq> None)"

definition hasNodeHttpAddress :: "('cntp, 'deip, 'tevp) TaskAttemptFinishedProto \<Rightarrow> bool" where
  "hasNodeHttpAddress p = (proto_nodeHttpAddress p \<noteq> None)"

definition getDataEventsCount :: "('cntp, 'deip, 'tevp) TaskAttemptFinishedProto \<Rightarrow> nat" where
  "getDataEventsCount p = length (proto_dataEvents p)"

definition getTaGeneratedEventsCount :: "('cntp, 'deip, 'tevp) TaskAttemptFinishedProto \<Rightarrow> nat" where
  "getTaGeneratedEventsCount p = length (proto_taGeneratedEvents p)"

subsection \<open>The collaborators of the codec\<close>

text \<open>
  The classes the codec converts with (\<open>TezTaskAttemptID\<close>, \<open>TaskAttemptState\<close>,
  \<open>TaskAttemptTerminationCause\<close>, \<open>DagTypeConverters\<close>, \<open>DataEventDependencyInfo\<close>,
  \<open>TezEventUtils\<close>, \<open>ConverterUtils\<close>) and the message's stream methods are not among
  the source files: they are parameters, collected in one record.
  \<^item> \<open>toString\<close> of an id and \<open>name\<close> of an enum constant return a string.
  \<^item> A static converter may throw. One whose result is stored in a field may also
    return \<open>null\<close>; one whose result is handed to a builder's setter fails when it
    returns \<open>null\<close>, since the setter throws on it.
  \<^item> A converter of a list element returns the element; a \<open>null\<close> element, which the
    source does not tell from any other, is a value of the element type.
  \<^item> An enum is the list of its constants in declaration order: \<open>values()\<close>.
  \<^item> A stream is the sequence of its bytes: those still to be read of an input stream,
    those written so far of an output stream. The stream methods return their result
    with the stream as they leave it.
\<close>

record ('tid, 'st, 'err, 'cnt, 'dei, 'tev, 'cid, 'nid, 'cntp, 'deip, 'tevp) collaborators =
  taToString :: "'tid \<Rightarrow> string"
  taFromString :: "string \<Rightarrow> exn + 'tid option"
  stateValues :: "'st list"
  errorValues :: "'err list"
  errorName :: "'err \<Rightarrow> string"
  convertTezCountersToProto :: "'cnt \<Rightarrow> exn + 'cntp"
  convertTezCountersFromProto :: "'cntp \<Rightarrow> exn + 'cnt option"
  dataEventToProto :: "'dei \<Rightarrow> exn + 'deip"
  dataEventFromProto :: "'deip \<Rightarrow> exn + 'dei"
  tezEventToProto :: "'tev \<Rightarrow> exn + 'tevp"
  tezEventFromProto :: "'tevp \<Rightarrow> exn + 'tev"
  containerIdToString :: "'cid \<Rightarrow> string"
  toContainerId :: "string \<Rightarrow> exn + 'cid option"
  nodeIdToString :: "'nid \<Rightarrow> string"
  toNodeId :: "string \<Rightarrow> exn + 'nid option"
  writeDelimitedTo :: "('cntp, 'deip, 'tevp) TaskAttemptFinishedProto \<Rightarrow> byte list \<Rightarrow> (exn + unit) \<times> byte list"
  parseDelimitedFrom :: "byte list \<Rightarrow> (exn + ('cntp, 'deip, 'tevp) TaskAttemptFinishedProto option) \<times> byte list"

text \<open>\<open>c.ordinal()\<close>: the position of a constant in \<open>values()\<close>.\<close>

fun ordinal :: "'a list \<Rightarrow> 'a \<Rightarrow> nat" where
  "ordinal [] c = 0"
| "ordinal (v # vs) c = (if c = v then 0 else Suc (ordinal vs c))"

text \<open>\<open>values()[i]\<close> for an \<open>int\<close> index: Java throws outside \<open>0 .. length - 1\<close>.\<close>

definition valuesAt :: "'a list \<Rightarrow> jint \<Rightarrow> exn + 'a" where
  "valuesAt vs i =
     (if 0 \<le> sint i \<and> sint i < int (length vs) then Inr (vs ! nat (sint i))
      else Inl (ArrayIndexOutOfBoundsException (sint i)))"

text \<open>\<open>Enum.valueOf(name)\<close>: the constant of that name, or an IllegalArgumentException.\<close>

definition valueOf :: "('err \<Rightarrow> string) \<Rightarrow> 'err list \<Rightarrow> string \<Rightarrow> exn + 'err" where
  "valueOf nm vs s =
     (case find (\<lambda>c. nm c = s) vs of
        None \<Rightarrow> Inl (IllegalArgumentException s)
      | Some c \<Rightarrow> Inr c)"

subsection \<open>toProto\<close>

text \<open>The two loops of \<open>toProto\<close>: each element is converted and added in order; the
  first conversion that throws ends the method.\<close>

fun addAllDataEvents ::
  "('tid, 'st, 'err, 'cnt, 'dei, 'tev, 'cid, 'nid, 'cntp, 'deip, 'tevp) collaborators \<Rightarrow> 'dei list \<Rightarrow>
   ('cntp, 'deip, 'tevp) TaskAttemptFinishedProto \<Rightarrow> exn + ('cntp, 'deip, 'tevp) TaskAttemptFinishedProto" where
  "addAllDataEvents env [] builder = Inr builder"
| "addAllDataEvents env (info # rest) builder =
     bindE (dataEventToProto env info) (\<lambda>ip.
       addAllDataEvents env rest (builder\<lparr>proto_dataEvents := proto_dataEvents builder @ [ip]\<rparr>))"

fun addAllTaGeneratedEvents ::
  "('tid, 'st, 'err, 'cnt, 'dei, 'tev, 'cid, 'nid, 'cntp, 'deip, 'tevp) collaborators \<Rightarrow> 'tev list \<Rightarrow>
   ('cntp, 'deip, 'tevp) TaskAttemptFinishedProto \<Rightarrow> exn + ('cntp, 'deip, 'tevp) TaskAttemptFinishedProto" where
  "addAllTaGeneratedEvents env [] builder = Inr builder"
| "addAllTaGeneratedEvents env (event # rest) builder =
     bindE (tezEventToProto env event) (\<lambda>ep.
       addAllTaGeneratedEvents env rest
         (builder\<lparr>proto_taGeneratedEvents := proto_taGeneratedEvents builder @ [ep]\<rparr>))"

text \<open>The statements of \<open>toProto\<close> in order. The first dereferences \<open>taskAttemptId\<close> and
  \<open>state\<close>: a \<open>null\<close> there is a NullPointerException.\<close>

definition toProto_required ::
  "('tid, 'st, 'err, 'cnt, 'dei, 'tev, 'cid, 'nid, 'cntp, 'deip, 'tevp) collaborators \<Rightarrow>
   ('tid, 'st, 'err, 'cnt, 'dei, 'tev, 'cid, 'nid) TaskAttemptFinishedEvent \<Rightarrow>
   exn + ('cntp, 'deip, 'tevp) TaskAttemptFinishedProto" where
  "toProto_required env this =
     (case taskAttemptId this of
        None \<Rightarrow> Inl NullPointerException
      | Some taId \<Rightarrow>
         (case state this of
            None \<Rightarrow> Inl NullPointerException
          | Some st \<Rightarrow>
             Inr (newBuilder
               \<lparr> proto_taskAttemptId := Some (taToString env taId),
                 proto_state := Some (of_nat (ordinal (stateValues env) st)),
                 proto_creationTime := Some (creationTime this),
                 proto_allocationTime := Some (allocationTime this),
                 proto_startTime := Some (startTime this),
                 proto_finishTime := Some (finishTime this) \<rparr>)))"

text \<open>The optional fields, one conditional each, in the order of the source.\<close>

definition toProto_creationCausalTA ::
  "('tid, 'st, 'err, 'cnt, 'dei, 'tev, 'cid, 'nid, 'cntp, 'deip, 'tevp) collaborators \<Rightarrow>
   ('tid, 'st, 'err, 'cnt, 'dei, 'tev, 'cid, 'nid) TaskAttemptFinishedEvent \<Rightarrow>
   ('cntp, 'deip, 'tevp) TaskAttemptFinishedProto \<Rightarrow> ('cntp, 'deip, 'tevp) TaskAttemptFinishedProto" where
  "toProto_creationCausalTA env this builder =
     (case creationCausalTA this of
        None \<Rightarrow> builder
      | Some ta \<Rightarrow> builder\<lparr>proto_creationCausalTA := Some (taToString env ta)\<rparr>)"

definition toProto_diagnostics ::
  "('tid, 'st, 'err, 'cnt, 'dei, 'tev, 'cid, 'nid) TaskAttemptFinishedEvent \<Rightarrow>
   ('cntp, 'deip, 'tevp) TaskAttemptFinishedProto \<Rightarrow> ('cntp, 'deip, 'tevp) TaskAttemptFinishedProto" where
  "toProto_diagnostics this builder =
     (case diagnostics this of
        None \<Rightarrow> builder
      | Some d \<Rightarrow> builder\<lparr>proto_diagnostics := Some d\<rparr>)"

definition toProto_error ::
  "('tid, 'st, 'err, 'cnt, 'dei, 'tev, 'cid, 'nid, 'cntp, 'deip, 'tevp) collaborators \<Rightarrow>
   ('tid, 'st, 'err, 'cnt, 'dei, 'tev, 'cid, 'nid) TaskAttemptFinishedEvent \<Rightarrow>
   ('cntp, 'deip, 'tevp) TaskAttemptFinishedProto \<Rightarrow> ('cntp, 'deip, 'tevp) TaskAttemptFinishedProto" where
  "toProto_error env this builder =
     (case error this of
        None \<Rightarrow> builder
      | Some er \<Rightarrow> builder\<lparr>proto_errorEnum := Some (errorName env er)\<rparr>)"

definition toProto_counters ::
  "('tid, 'st, 'err, 'cnt, 'dei, 'tev, 'cid, 'nid, 'cntp, 'deip, 'tevp) collaborators \<Rightarrow>
   ('tid, 'st, 'err, 'cnt, 'dei, 'tev, 'cid, 'nid) TaskAttemptFinishedEvent \<Rightarrow>
   ('cntp, 'deip, 'tevp) TaskAttemptFinishedProto \<Rightarrow> exn + ('cntp, 'deip, 'tevp) TaskAttemptFinishedProto" where
  "toProto_counters env this builder =
     (case tezCounters this of
        None \<Rightarrow> Inr builder
      | Some c \<Rightarrow>
          bindE (convertTezCountersToProto env c) (\<lambda>cp.
            Inr (builder\<lparr>proto_counters := Some cp\<rparr>)))"

definition toProto_dataEvents ::
  "('tid, 'st, 'err, 'cnt, 'dei, 'tev, 'cid, 'nid, 'cntp, 'deip, 'tevp) collaborators \<Rightarrow>
   ('tid, 'st, 'err, 'cnt, 'dei, 'tev, 'cid, 'nid) TaskAttemptFinishedEvent \<Rightarrow>
   ('cntp, 'deip, 'tevp) TaskAttemptFinishedProto \<Rightarrow> exn + ('cntp, 'deip, 'tevp) TaskAttemptFinishedProto" where
  "toProto_dataEvents env this builder =
     (case dataEvents this of
        None \<Rightarrow> Inr builder
      | Some infos \<Rightarrow>
          if infos \<noteq> [] then addAllDataEvents env infos builder else Inr builder)"

definition toProto_taGeneratedEvents ::
  "('tid, 'st, 'err, 'cnt, 'dei, 'tev, 'cid, 'nid, 'cntp, 'deip, 'tevp) collaborators \<Rightarrow>
   ('tid, 'st, 'err, 'cnt, 'dei, 'tev, 'cid, 'nid) TaskAttemptFinishedEvent \<Rightarrow>
   ('cntp, 'deip, 'tevp) TaskAttemptFinishedProto \<Rightarrow> exn + ('cntp, 'deip, 'tevp) TaskAttemptFinishedProto" where
  "toProto_taGeneratedEvents env this builder =
     (case taGeneratedEvents this of
        None \<Rightarrow> Inr builder
      | Some events \<Rightarrow>
          if events \<noteq> [] then addAllTaGeneratedEvents env events builder else Inr builder)"

definition toProto_containerId ::
  "('tid, 'st, 'err, 'cnt, 'dei, 'tev, 'cid, 'nid, 'cntp, 'deip, 'tevp) collaborators \<Rightarrow>
   ('tid, 'st, 'err, 'cnt, 'dei, 'tev, 'cid, 'nid) TaskAttemptFinishedEvent \<Rightarrow>
   ('cntp, 'deip, 'tevp) TaskAttemptFinishedProto \<Rightarrow> ('cntp, 'deip, 'tevp) TaskAttemptFinishedProto" where
  "toProto_containerId env this builder =
     (case containerId this of
        None \<Rightarrow> builder
      | Some c \<Rightarrow> builder\<lparr>proto_containerId := Some (containerIdToString env c)\<rparr>)"

definition toProto_nodeId ::
  "('tid, 'st, 'err, 'cnt, 'dei, 'tev, 'cid, 'nid, 'cntp, 'deip, 'tevp) collaborators \<Rightarrow>
   ('tid, 'st, 'err, 'cnt, 'dei, 'tev, 'cid, 'nid) TaskAttemptFinishedEvent \<Rightarrow>
   ('cntp, 'deip, 'tevp) TaskAttemptFinishedProto \<Rightarrow> ('cntp, 'deip, 'tevp) TaskAttemptFinishedProto" where
  "toProto_nodeId env this builder =
     (case nodeId this of
        None \<Rightarrow> builder
      | Some n \<Rightarrow> builder\<lparr>proto_nodeId := Some (nodeIdToString env n)\<rparr>)"

definition toProto_nodeHttpAddress ::
  "('tid, 'st, 'err, 'cnt, 'dei, 'tev, 'cid, 'nid) TaskAttemptFinishedEvent \<Rightarrow>
   ('cntp, 'deip, 'tevp) TaskAttemptFinishedProto \<Rightarrow> ('cntp, 'deip, 'tevp) TaskAttemptFinishedProto" where
  "toProto_nodeHttpAddress this builder =
     (case nodeHttpAddress this of
        None \<Rightarrow> builder
      | Some a \<Rightarrow> builder\<lparr>proto_nodeHttpAddress := Some a\<rparr>)"

text \<open>\<open>toProto\<close>: the statements in sequence; \<open>build()\<close> returns the message as set.\<close>

definition toProto ::
  "('tid, 'st, 'err, 'cnt, 'dei, 'tev, 'cid, 'nid, 'cntp, 'deip, 'tevp) collaborators \<Rightarrow>
   ('tid, 'st, 'err, 'cnt, 'dei, 'tev, 'cid, 'nid) TaskAttemptFinishedEvent \<Rightarrow>
   exn + ('cntp, 'deip, 'tevp) TaskAttemptFinishedProto" where
  "toProto env this =
     bindE (toProto_required env this) (\<lambda>b1.
     bindE (toProto_counters env this
              (toProto_error env this
                (toProto_diagnostics this
                  (toProto_creationCausalTA env this b1)))) (\<lambda>b2.
     bindE (toProto_dataEvents env this b2) (\<lambda>b3.
     bindE (toProto_taGeneratedEvents env this b3) (\<lambda>b4.
     Inr (toProto_nodeHttpAddress this
           (toProto_nodeId env this
             (toProto_containerId env this b4)))))))"

subsection \<open>fromProto\<close>

text \<open>The two loops of \<open>fromProto\<close>: a fresh list, each converted element added at its
  end.\<close>

fun dataEventsFromList ::
  "('tid, 'st, 'err, 'cnt, 'dei, 'tev, 'cid, 'nid, 'cntp, 'deip, 'tevp) collaborators \<Rightarrow> 'deip list \<Rightarrow>
   'dei list \<Rightarrow> exn + 'dei list" where
  "dataEventsFromList env [] acc = Inr acc"
| "dataEventsFromList env (protoEvent # rest) acc =
     bindE (dataEventFromProto env protoEvent) (\<lambda>info.
       dataEventsFromList env rest (acc @ [info]))"

fun taGeneratedEventsFromList ::
  "('tid, 'st, 'err, 'cnt, 'dei, 'tev, 'cid, 'nid, 'cntp, 'deip, 'tevp) collaborators \<Rightarrow> 'tevp list \<Rightarrow>
   'tev list \<Rightarrow> exn + 'tev list" where
  "taGeneratedEventsFromList env [] acc = Inr acc"
| "taGeneratedEventsFromList env (eventProto # rest) acc =
     bindE (tezEventFromProto env eventProto) (\<lambda>event.
       taGeneratedEventsFromList env rest (acc @ [event]))"

text \<open>\<open>fromProto\<close> is an instance method: it assigns fields of the receiver \<open>this\<close> and
  leaves the others as they are. Each function below is one statement group of the
  source; its result is the receiver after it, or the exception that ended it.\<close>

definition fromProto_required ::
  "('tid, 'st, 'err, 'cnt, 'dei, 'tev, 'cid, 'nid, 'cntp, 'deip, 'tevp) collaborators \<Rightarrow>
   ('tid, 'st, 'err, 'cnt, 'dei, 'tev, 'cid, 'nid) TaskAttemptFinishedEvent \<Rightarrow>
   ('cntp, 'deip, 'tevp) TaskAttemptFinishedProto \<Rightarrow>
   exn + ('tid, 'st, 'err, 'cnt, 'dei, 'tev, 'cid, 'nid) TaskAttemptFinishedEvent" where
  "fromProto_required env this proto =
     bindE (taFromString env (getTaskAttemptId proto)) (\<lambda>taId.
     bindE (valuesAt (stateValues env) (getState proto)) (\<lambda>st.
       Inr (this\<lparr> taskAttemptId := taId,
                  state := Some st,
                  creationTime := getCreationTime proto,
                  allocationTime := getAllocationTime proto,
                  startTime := getStartTime proto,
                  finishTime := getFinishTime proto \<rparr>)))"

definition fromProto_creationCausalTA ::
  "('tid, 'st, 'err, 'cnt, 'dei, 'tev, 'cid, 'nid, 'cntp, 'deip, 'tevp) collaborators \<Rightarrow>
   ('tid, 'st, 'err, 'cnt, 'dei, 'tev, 'cid, 'nid) TaskAttemptFinishedEvent \<Rightarrow>
   ('cntp, 'deip, 'tevp) TaskAttemptFinishedProto \<Rightarrow>
   exn + ('tid, 'st, 'err, 'cnt, 'dei, 'tev, 'cid, 'nid) TaskAttemptFinishedEvent" where
  "fromProto_creationCausalTA env this proto =
     (case proto_creationCausalTA proto of
        None \<Rightarrow> Inr this
      | Some s \<Rightarrow>
          bindE (taFromString env s) (\<lambda>ta. Inr (this\<lparr>creationCausalTA := ta\<rparr>)))"

definition fromProto_diagnostics ::
  "('tid, 'st, 'err, 'cnt, 'dei, 'tev, 'cid, 'nid) TaskAttemptFinishedEvent \<Rightarrow>
   ('cntp, 'deip, 'tevp) TaskAttemptFinishedProto \<Rightarrow>
   ('tid, 'st, 'err, 'cnt, 'dei, 'tev, 'cid, 'nid) TaskAttemptFinishedEvent" where
  "fromProto_diagnostics this proto =
     (case proto_diagnostics proto of
        None \<Rightarrow> this
      | Some d \<Rightarrow> this\<lparr>diagnostics := Some d\<rparr>)"

definition fromProto_error ::
  "('tid, 'st, 'err, 'cnt, 'dei, 'tev, 'cid, 'nid, 'cntp, 'deip, 'tevp) collaborators \<Rightarrow>
   ('tid, 'st, 'err, 'cnt, 'dei, 'tev, 'cid, 'nid) TaskAttemptFinishedEvent \<Rightarrow>
   ('cntp, 'deip, 'tevp) TaskAttemptFinishedProto \<Rightarrow>
   exn + ('tid, 'st, 'err, 'cnt, 'dei, 'tev, 'cid, 'nid) TaskAttemptFinishedEvent" where
  "fromProto_error env this proto =
     (case proto_errorEnum proto of
        None \<Rightarrow> Inr this
      | Some s \<Rightarrow>
          bindE (valueOf (errorName env) (errorValues env) s) (\<lambda>er.
            Inr (this\<lparr>error := Some er\<rparr>)))"

definition fromProto_counters ::
  "('tid, 'st, 'err, 'cnt, 'dei, 'tev, 'cid, 'nid, 'cntp, 'deip, 'tevp) collaborators \<Rightarrow>
   ('tid, 'st, 'err, 'cnt, 'dei, 'tev, 'cid, 'nid) TaskAttemptFinishedEvent \<Rightarrow>
   ('cntp, 'deip, 'tevp) TaskAttemptFinishedProto \<Rightarrow>
   exn + ('tid, 'st, 'err, 'cnt, 'dei, 'tev, 'cid, 'nid) TaskAttemptFinishedEvent" where
  "fromProto_counters env this proto =
     (case proto_counters proto of
        None \<Rightarrow> Inr this
      | Some cp \<Rightarrow>
          bindE (convertTezCountersFromProto env cp) (\<lambda>c. Inr (this\<lparr>tezCounters := c\<rparr>)))"

definition fromProto_dataEvents ::
  "('tid, 'st, 'err, 'cnt, 'dei, 'tev, 'cid, 'nid, 'cntp, 'deip, 'tevp) collaborators \<Rightarrow>
   ('tid, 'st, 'err, 'cnt, 'dei, 'tev, 'cid, 'nid) TaskAttemptFinishedEvent \<Rightarrow>
   ('cntp, 'deip, 'tevp) TaskAttemptFinishedProto \<Rightarrow>
   exn + ('tid, 'st, 'err, 'cnt, 'dei, 'tev, 'cid, 'nid) TaskAttemptFinishedEvent" where
  "fromProto_dataEvents env this proto =
     (if getDataEventsCount proto > 0
      then bindE (dataEventsFromList env (proto_dataEvents proto) []) (\<lambda>infos.
             Inr (this\<lparr>dataEvents := Some infos\<rparr>))
      else Inr this)"

definition fromProto_taGeneratedEvents ::
  "('tid, 'st, 'err, 'cnt, 'dei, 'tev, 'cid, 'nid, 'cntp, 'deip, 'tevp) collaborators \<Rightarrow>
   ('tid, 'st, 'err, 'cnt, 'dei, 'tev, 'cid, 'nid) TaskAttemptFinishedEvent \<Rightarrow>
   ('cntp, 'deip, 'tevp) TaskAttemptFinishedProto \<Rightarrow>
   exn + ('tid, 'st, 'err, 'cnt, 'dei, 'tev, 'cid, 'nid) TaskAttemptFinishedEvent" where
  "fromProto_taGeneratedEvents env this proto =
     (if getTaGeneratedEventsCount proto > 0
      then bindE (taGeneratedEventsFromList env (proto_taGeneratedEvents proto) []) (\<lambda>events.
             Inr (this\<lparr>taGeneratedEvents := Some events\<rparr>))
      else Inr this)"

definition fromProto_containerId ::
  "('tid, 'st, 'err, 'cnt, 'dei, 'tev, 'cid, 'nid, 'cntp, 'deip, 'tevp) collaborators \<Rightarrow>
   ('tid, 'st, 'err, 'cnt, 'dei, 'tev, 'cid, 'nid) TaskAttemptFinishedEvent \<Rightarrow>
   ('cntp, 'deip, 'tevp) TaskAttemptFinishedProto \<Rightarrow>
   exn + ('tid, 'st, 'err, 'cnt, 'dei, 'tev, 'cid, 'nid) TaskAttemptFinishedEvent" where
  "fromProto_containerId env this proto =
     (case proto_containerId proto of
        None \<Rightarrow> Inr this
      | Some s \<Rightarrow> bindE (toContainerId env s) (\<lambda>c. Inr (this\<lparr>containerId := c\<rparr>)))"

definition fromProto_nodeId ::
  "('tid, 'st, 'err, 'cnt, 'dei, 'tev, 'cid, 'nid, 'cntp, 'deip, 'tevp) collaborators \<Rightarrow>
   ('tid, 'st, 'err, 'cnt, 'dei, 'tev, 'cid, 'nid) TaskAttemptFinishedEvent \<Rightarrow>
   ('cntp, 'deip, 'tevp) TaskAttemptFinishedProto \<Rightarrow>
   exn + ('tid, 'st, 'err, 'cnt, 'dei, 'tev, 'cid, 'nid) TaskAttemptFinishedEvent" where
  "fromProto_nodeId env this proto =
     (case proto_nodeId proto of
        None \<Rightarrow> Inr this
      | Some s \<Rightarrow> bindE (toNodeId env s) (\<lambda>n. Inr (this\<lparr>nodeId := n\<rparr>)))"

definition fromProto_nodeHttpAddress ::
  "('tid, 'st, 'err, 'cnt, 'dei, 'tev, 'cid, 'nid) TaskAttemptFinishedEvent \<Rightarrow>
   ('cntp, 'deip, 'tevp) TaskAttemptFinishedProto \<Rightarrow>
   ('tid, 'st, 'err, 'cnt, 'dei, 'tev, 'cid, 'nid) TaskAttemptFinishedEvent" where
  "fromProto_nodeHttpAddress this proto =
     (case proto_nodeHttpAddress proto of
        None \<Rightarrow> this
      | Some a \<Rightarrow> this\<lparr>nodeHttpAddress := Some a\<rparr>)"

definition fromProto ::
  "('tid, 'st, 'err, 'cnt, 'dei, 'tev, 'cid, 'nid, 'cntp, 'deip, 'tevp) collaborators \<Rightarrow>
   ('tid, 'st, 'err, 'cnt, 'dei, 'tev, 'cid, 'nid) TaskAttemptFinishedEvent \<Rightarrow>
   ('cntp, 'deip, 'tevp) TaskAttemptFinishedProto \<Rightarrow>
   exn + ('tid, 'st, 'err, 'cnt, 'dei, 'tev, 'cid, 'nid) TaskAttemptFinishedEvent" where
  "fromProto env this proto =
     bindE (fromProto_required env this proto) (\<lambda>t1.
     bindE (fromProto_creationCausalTA env t1 proto) (\<lambda>t2.
     bindE (fromProto_error env (fromProto_diagnostics t2 proto) proto) (\<lambda>t3.
     bindE (fromProto_counters env t3 proto) (\<lambda>t4.
     bindE (fromProto_dataEvents env t4 proto) (\<lambda>t5.
     bindE (fromProto_taGeneratedEvents env t5 proto) (\<lambda>t6.
     bindE (fromProto_containerId env t6 proto) (\<lambda>t7.
     bindE (fromProto_nodeId env t7 proto) (\<lambda>t8.
     Inr (fromProto_nodeHttpAddress t8 proto)))))))))"

subsection \<open>The stream methods\<close>

definition toProtoStream ::
  "('tid, 'st, 'err, 'cnt, 'dei, 'tev, 'cid, 'nid, 'cntp, 'deip, 'tevp) collaborators \<Rightarrow>
   ('tid, 'st, 'err, 'cnt, 'dei, 'tev, 'cid, 'nid) TaskAttemptFinishedEvent \<Rightarrow>
   byte list \<Rightarrow> (exn + unit) \<times> byte list" where
  "toProtoStream env this outputStream =
     (case toProto env this of
        Inl x \<Rightarrow> (Inl x, outputStream)
      | Inr proto \<Rightarrow> writeDelimitedTo env proto outputStream)"

definition fromProtoStream ::
  "('tid, 'st, 'err, 'cnt, 'dei, 'tev, 'cid, 'nid, 'cntp, 'deip, 'tevp) collaborators \<Rightarrow>
   ('tid, 'st, 'err, 'cnt, 'dei, 'tev, 'cid, 'nid) TaskAttemptFinishedEvent \<Rightarrow>
   byte list \<Rightarrow>
   (exn + ('tid, 'st, 'err, 'cnt, 'dei, 'tev, 'cid, 'nid) TaskAttemptFinishedEvent) \<times> byte list" where
  "fromProtoStream env this inputStream =
     (case parseDelimitedFrom env inputStream of
        (Inl x, rest) \<Rightarrow> (Inl x, rest)
      | (Inr None, rest) \<Rightarrow> (Inl (IOException ''No data found in stream''), rest)
      | (Inr (Some proto), rest) \<Rightarrow> (fromProto env this proto, rest))"

subsection \<open>Timestamp order\<close>

text \<open>The order the specification expects of an event's four timestamps, and the same
  order on the timestamps a message carries. A \<open>long\<close> compares as a signed number.\<close>

definition timestamps_ordered ::
  "('tid, 'st, 'err, 'cnt, 'dei, 'tev, 'cid, 'nid) TaskAttemptFinishedEvent \<Rightarrow> bool" where
  "timestamps_ordered this \<longleftrightarrow>
     sint (creationTime this) \<le> sint (allocationTime this) \<and>
     sint (allocationTime this) \<le> sint (startTime this) \<and>
     sint (startTime this) \<le> sint (finishTime this)"

definition proto_timestamps_ordered :: "('cntp, 'deip, 'tevp) TaskAttemptFinishedProto \<Rightarrow> bool" where
  "proto_timestamps_ordered p \<longleftrightarrow>
     sint (getCreationTime p) \<le> sint (getAllocationTime p) \<and>
     sint (getAllocationTime p) \<le> sint (getStartTime p) \<and>
     sint (getStartTime p) \<le> sint (getFinishTime p)"

subsection \<open>When the collaborators invert each other on an event\<close>

text \<open>
  What a round trip needs of the collaborators, for the values one event holds: the
  enums behave as Java enums do (the state and the error are constants of their enums,
  constant names are distinct, ordinals fit an \<open>int\<close>), and each converter from the
  message gives back what the converter to the message was given.
\<close>

definition enums_wellformed ::
  "('tid, 'st, 'err, 'cnt, 'dei, 'tev, 'cid, 'nid, 'cntp, 'deip, 'tevp) collaborators \<Rightarrow>
   ('tid, 'st, 'err, 'cnt, 'dei, 'tev, 'cid, 'nid) TaskAttemptFinishedEvent \<Rightarrow> bool" where
  "enums_wellformed env this \<longleftrightarrow>
     length (stateValues env) < 2 ^ 31 \<and>
     (case state this of None \<Rightarrow> True | Some st \<Rightarrow> st \<in> set (stateValues env)) \<and>
     inj_on (errorName env) (set (errorValues env)) \<and>
     (case error this of None \<Rightarrow> True | Some er \<Rightarrow> er \<in> set (errorValues env))"

definition converters_invert ::
  "('tid, 'st, 'err, 'cnt, 'dei, 'tev, 'cid, 'nid, 'cntp, 'deip, 'tevp) collaborators \<Rightarrow>
   ('tid, 'st, 'err, 'cnt, 'dei, 'tev, 'cid, 'nid) TaskAttemptFinishedEvent \<Rightarrow> bool" where
  "converters_invert env this \<longleftrightarrow>
     (case taskAttemptId this of None \<Rightarrow> True
      | Some ta \<Rightarrow> taFromString env (taToString env ta) = Inr (Some ta)) \<and>
     (case creationCausalTA this of None \<Rightarrow> True
      | Some ta \<Rightarrow> taFromString env (taToString env ta) = Inr (Some ta)) \<and>
     (case tezCounters this of None \<Rightarrow> True
      | Some c \<Rightarrow> (case convertTezCountersToProto env c of
                    Inl x \<Rightarrow> False
                  | Inr cp \<Rightarrow> convertTezCountersFromProto env cp = Inr (Some c))) \<and>
     (case dataEvents this of None \<Rightarrow> True
      | Some infos \<Rightarrow> list_all (\<lambda>info. case dataEventToProto env info of
                                      Inl x \<Rightarrow> False
                                    | Inr ip \<Rightarrow> dataEventFromProto env ip = Inr info) infos) \<and>
     (case taGeneratedEvents this of None \<Rightarrow> True
      | Some events \<Rightarrow> list_all (\<lambda>event. case tezEventToProto env event of
                                       Inl x \<Rightarrow> False
                                     | Inr ep \<Rightarrow> tezEventFromProto env ep = Inr event) events) \<and>
     (case containerId this of None \<Rightarrow> True
      | Some c \<Rightarrow> toContainerId env (containerIdToString env c) = Inr (Some c)) \<and>
     (case nodeId this of None \<Rightarrow> True
      | Some n \<Rightarrow> toNodeId env (nodeIdToString env n) = Inr (Some n))"

text \<open>What of an event a round trip gives back: the fields the message carries. The
  vertex name and the two log URLs are not written, and a list is written by its
  elements only (none for \<open>null\<close>, none for an empty list), so an empty list reads back
  as no list.\<close>

definition elements :: "'a list option \<Rightarrow> 'a list" where
  "elements l = (case l of None \<Rightarrow> [] | Some xs \<Rightarrow> xs)"

definition nonempty_or_null :: "'a list option \<Rightarrow> 'a list option" where
  "nonempty_or_null l = (case l of None \<Rightarrow> None | Some xs \<Rightarrow> if xs = [] then None else Some xs)"

definition recovered ::
  "('tid, 'st, 'err, 'cnt, 'dei, 'tev, 'cid, 'nid) TaskAttemptFinishedEvent \<Rightarrow>
   ('tid, 'st, 'err, 'cnt, 'dei, 'tev, 'cid, 'nid) TaskAttemptFinishedEvent" where
  "recovered this =
     this\<lparr> vertexName := None,
           dataEvents := nonempty_or_null (dataEvents this),
           taGeneratedEvents := nonempty_or_null (taGeneratedEvents this),
           inProgressLogsUrl := None,
           completedLogsUrl := None \<rparr>"

subsection \<open>Sample collaborators\<close>

text \<open>
  Concrete collaborators to evaluate the codec with: ids are their own strings (the
  empty string is not an id), the states are the three the specification lists,
  counters and the embedded events are numbers that convert to themselves, and a
  delimited message is a length byte followed by that many bytes, of which the first is
  the state ordinal.
\<close>

definition sampleWriteDelimitedTo ::
  "(nat, nat, nat) TaskAttemptFinishedProto \<Rightarrow> byte list \<Rightarrow> (exn + unit) \<times> byte list" where
  "sampleWriteDelimitedTo p out = (Inr (), out @ [1, ucast (getState p)])"

definition sampleParseDelimitedFrom ::
  "byte list \<Rightarrow> (exn + (nat, nat, nat) TaskAttemptFinishedProto option) \<times> byte list" where
  "sampleParseDelimitedFrom bs =
     (case bs of
        [] \<Rightarrow> (Inr None, [])
      | n # rest \<Rightarrow>
          if n = 0 \<or> length rest < unat n then (Inl (IOException ''truncated message''), [])
          else (Inr (Some (newBuilder\<lparr> proto_taskAttemptId := Some ''attempt_1_0001_1_00_000000_0'',
                                       proto_state := Some (ucast (hd rest)) \<rparr>)),
                drop (unat n) rest))"

definition sampleCollaborators ::
  "(string, string, string, nat, nat, nat, string, string, nat, nat, nat) collaborators" where
  "sampleCollaborators =
   \<lparr> taToString = (\<lambda>ta. ta),
     taFromString = (\<lambda>s. if s = [] then Inl (IllegalArgumentException s) else Inr (Some s)),
     stateValues = [''SUCCEEDED'', ''FAILED'', ''KILLED''],
     errorValues = [''APPLICATION_ERROR'', ''CONTAINER_EXITED''],
     errorName = (\<lambda>er. er),
     convertTezCountersToProto = (\<lambda>c. Inr c),
     convertTezCountersFromProto = (\<lambda>cp. Inr (Some cp)),
     dataEventToProto = (\<lambda>info. Inr info),
     dataEventFromProto = (\<lambda>ip. Inr ip),
     tezEventToProto = (\<lambda>event. Inr event),
     tezEventFromProto = (\<lambda>ep. Inr ep),
     containerIdToString = (\<lambda>c. c),
     toContainerId = (\<lambda>s. Inr (Some s)),
     nodeIdToString = (\<lambda>n. n),
     toNodeId = (\<lambda>s. Inr (Some s)),
     writeDelimitedTo = sampleWriteDelimitedTo,
     parseDelimitedFrom = sampleParseDelimitedFrom \<rparr>"

type_synonym sampleEvent =
  "(string, string, string, nat, nat, nat, string, string) TaskAttemptFinishedEvent"

text \<open>An event with every field set, built by the full constructor.\<close>

definition sampleFullEvent :: sampleEvent where
  "sampleFullEvent =
     newTaskAttemptFinishedEvent (Some ''attempt_1_0001_1_00_000000_0'') (Some ''Map 1'')
       100 150 (Some ''FAILED'') (Some ''CONTAINER_EXITED'') (Some ''exit code 1'') (Some 7)
       (Some [3, 4]) (Some [9]) 80 (Some ''attempt_1_0001_1_00_000000_1'') 90
       (Some ''container_1_0001_01_000002'') (Some ''node1:45454'')
       (Some ''http://node1:8042/logs/inprogress'') (Some ''http://history:19888/logs/done'')
       (Some ''node1:8042'')"

text \<open>An event with the required fields only, and two lists that are present and
  empty.\<close>

definition sampleSparseEvent :: sampleEvent where
  "sampleSparseEvent =
     newTaskAttemptFinishedEvent (Some ''attempt_1_0001_1_00_000000_0'') None
       100 150 (Some ''SUCCEEDED'') None None None (Some []) (Some []) 80 None 90
       None None None None None"

text \<open>A message with the required fields only.\<close>

definition sampleSparseProto :: "(nat, nat, nat) TaskAttemptFinishedProto" where
  "sampleSparseProto =
     newBuilder\<lparr> proto_taskAttemptId := Some ''attempt_1_0001_1_00_000000_0'',
                 proto_state := Some 0,
                 proto_creationTime := Some 80,
                 proto_allocationTime := Some 90,
                 proto_startTime := Some 100,
                 proto_finishTime := Some 150 \<rparr>"

text \<open>The event that message decodes to, and the message the full event encodes to.\<close>

definition sampleSparseDecoded :: sampleEvent where
  "sampleSparseDecoded =
     emptyTaskAttemptFinishedEvent
       \<lparr> taskAttemptId := Some ''attempt_1_0001_1_00_000000_0'',
         state := Some ''SUCCEEDED'',
         creationTime := 80, allocationTime := 90, startTime := 100, finishTime := 150 \<rparr>"

definition sampleFullProto :: "(nat, nat, nat) TaskAttemptFinishedProto" where
  "sampleFullProto =
   \<lparr> proto_taskAttemptId = Some ''attempt_1_0001_1_00_000000_0'',
     proto_state = Some 1,
     proto_creationTime = Some 80,
     proto_allocationTime = Some 90,
     proto_startTime = Some 100,
     proto_finishTime = Some 150,
     proto_creationCausalTA = Some ''attempt_1_0001_1_00_000000_1'',
     proto_diagnostics = Some ''exit code 1'',
     proto_errorEnum = Some ''CONTAINER_EXITED'',
     proto_counters = Some 7,
     proto_dataEvents = [3, 4],
     proto_taGeneratedEvents = [9],
     proto_containerId = Some ''container_1_0001_01_000002'',
     proto_nodeId = Some ''node1:45454'',
     proto_nodeHttpAddress = Some ''node1:8042'' \<rparr>"

text \<open>The same message with start and finish time exchanged.\<close>

definition sampleDisorderedProto :: "(nat, nat, nat) TaskAttemptFinishedProto" where
  "sampleDisorderedProto =
     sampleSparseProto\<lparr> proto_startTime := Some 150, proto_finishTime := Some 100 \<rparr>"

text \<open>A message whose state ordinal names no constant, as the sample parser reads it
  from the bytes 1, 7; and one whose error name names no constant.\<close>

definition sampleUnknownStateProto :: "(nat, nat, nat) TaskAttemptFinishedProto" where
  "sampleUnknownStateProto =
     newBuilder\<lparr> proto_taskAttemptId := Some ''attempt_1_0001_1_00_000000_0'',
                 proto_state := Some 7 \<rparr>"

definition sampleUnknownErrorProto :: "(nat, nat, nat) TaskAttemptFinishedProto" where
  "sampleUnknownErrorProto = sampleSparseProto\<lparr> proto_errorEnum := Some ''NO_SUCH_CAUSE'' \<rparr>"

text \<open>An event with its task attempt id and state set, and each timestamp at 0, the value
  of a \<open>long\<close> that was never assigned.\<close>

definition sampleDefaultTimesEvent :: sampleEvent where
  "sampleDefaultTimesEvent =
     emptyTaskAttemptFinishedEvent\<lparr> taskAttemptId := Some ''attempt_1_0001_1_00_000000_0'',
                                    state := Some ''SUCCEEDED'' \<rparr>"

section \<open>The log around the codec\<close>

text \<open>
  The Writer, the Reader and the Reconstructor of the specification are not among the
  source files. The definitions of this section follow the specification's words; each
  says so, and says what it takes from them.
\<close>

subsection \<open>The Writer's frame\<close>






















subsection \<open>The Reconstructor\<close>

text \<open>Modelled from the spec: how an entity ended, \<open>TERMINAL(success | failed | killed)\<close>.\<close>

datatype outcome = success | failed | killed

text \<open>Modelled from the spec: the per-entity states
  \<open>UNSEEN \<rightarrow> CREATED \<rightarrow> RUNNING \<rightarrow> TERMINAL(success | failed | killed)\<close>.\<close>

datatype entity_state = UNSEEN | CREATED | RUNNING | TERMINAL outcome

text \<open>Modelled from the spec: the events its scenarios fold, \<open>Started(start)\<close> and
  \<open>Finished(start, finish, state)\<close>.\<close>

datatype history_event = Started jlong | Finished jlong jlong outcome

text \<open>Modelled from the spec: what the Reconstructor keeps of an entity: its state, the
  times its events gave (the scenarios read a duration off them), and the
  missing-CREATED anomaly flag.\<close>

record entity =
  entityState :: entity_state
  started :: "jlong option"
  finished :: "jlong option"
  missingCreated :: bool

text \<open>Modelled from the spec: an entity no event has been folded into.\<close>

definition unseen :: entity where
  "unseen = \<lparr> entityState = UNSEEN, started = None, finished = None, missingCreated = False \<rparr>"

text \<open>
  Modelled from the spec: \<open>apply(state, event) \<rightarrow> state\<close>. The transition is driven by
  the type of the event: Started leads to RUNNING and Finished to TERMINAL with the
  event's outcome and times. Finished on UNSEEN does not fit the state: the missing
  state is synthesized, flagged (missing-CREATED), and the fold continues. The states
  are ordered, so there is no transition out of TERMINAL and none from RUNNING back to
  RUNNING: an event that would lead backwards leaves the entity as it is.
\<close>

fun apply_event :: "entity \<Rightarrow> history_event \<Rightarrow> entity" where
  "apply_event s (Started start) =
     (case entityState s of
        UNSEEN \<Rightarrow> s\<lparr>entityState := RUNNING, started := Some start\<rparr>
      | CREATED \<Rightarrow> s\<lparr>entityState := RUNNING, started := Some start\<rparr>
      | RUNNING \<Rightarrow> s
      | TERMINAL r \<Rightarrow> s)"
| "apply_event s (Finished start finish r) =
     (case entityState s of
        UNSEEN \<Rightarrow> s\<lparr>entityState := TERMINAL r, started := Some start, finished := Some finish,
                    missingCreated := True\<rparr>
      | CREATED \<Rightarrow> s\<lparr>entityState := TERMINAL r, started := Some start, finished := Some finish\<rparr>
      | RUNNING \<Rightarrow> s\<lparr>entityState := TERMINAL r, started := Some start, finished := Some finish\<rparr>
      | TERMINAL r' \<Rightarrow> s)"

text \<open>Modelled from the spec: the duration the scenarios report, finish minus start.\<close>

definition duration :: "entity \<Rightarrow> jlong option" where
  "duration s =
     (case (started s, finished s) of
        (Some a, Some b) \<Rightarrow> Some (b - a)
      | _ \<Rightarrow> None)"

section \<open>Properties\<close>

lemma bindE_Inl: "bindE (Inl x) f = Inl x"
  by (simp add: bindE_def)

lemma bindE_Inr: "bindE (Inr v) f = f v"
  by (simp add: bindE_def)

lemma bindE_eq_Inr: "bindE m f = Inr y \<longleftrightarrow> (\<exists>x. m = Inr x \<and> f x = Inr y)"
  by (cases m) (simp_all add: bindE_def)

lemma bindE_eq_Inl: "bindE m f = Inl e \<longleftrightarrow> (m = Inl e \<or> (\<exists>x. m = Inr x \<and> f x = Inl e))"
  by (cases m) (simp_all add: bindE_def)

subsection \<open>What each statement of fromProto changes\<close>

lemma fromProto_required_Inr:
  assumes "fromProto_required env this p = Inr t"
  shows "\<exists>taId st. taFromString env (getTaskAttemptId p) = Inr taId \<and>
           valuesAt (stateValues env) (getState p) = Inr st \<and>
           t = this\<lparr> taskAttemptId := taId, state := Some st,
                      creationTime := getCreationTime p, allocationTime := getAllocationTime p,
                      startTime := getStartTime p, finishTime := getFinishTime p \<rparr>"
  using assms by (auto simp: fromProto_required_def bindE_eq_Inr)

lemma fromProto_creationCausalTA_Inr:
  assumes "fromProto_creationCausalTA env this p = Inr t"
  shows "(\<exists>v. t = this\<lparr>creationCausalTA := v\<rparr>) \<and> (\<not> hasCreationCausalTA p \<longrightarrow> t = this)"
proof (cases "proto_creationCausalTA p")
  case None
  with assms have "t = this\<lparr>creationCausalTA := creationCausalTA this\<rparr>" "t = this"
    by (simp_all add: fromProto_creationCausalTA_def)
  then show ?thesis by blast
next
  case (Some s)
  with assms show ?thesis
    by (auto simp: fromProto_creationCausalTA_def bindE_eq_Inr hasCreationCausalTA_def)
qed

lemma fromProto_diagnostics_eq:
  "(\<exists>v. fromProto_diagnostics this p = this\<lparr>diagnostics := v\<rparr>) \<and>
   (\<not> hasDiagnostics p \<longrightarrow> fromProto_diagnostics this p = this)"
proof (cases "proto_diagnostics p")
  case None
  then have "fromProto_diagnostics this p = this\<lparr>diagnostics := diagnostics this\<rparr>"
    "fromProto_diagnostics this p = this"
    by (simp_all add: fromProto_diagnostics_def)
  then show ?thesis by blast
next
  case (Some s)
  then show ?thesis
    by (auto simp: fromProto_diagnostics_def hasDiagnostics_def)
qed

lemma fromProto_error_Inr:
  assumes "fromProto_error env this p = Inr t"
  shows "(\<exists>v. t = this\<lparr>error := v\<rparr>) \<and> (\<not> hasErrorEnum p \<longrightarrow> t = this)"
proof (cases "proto_errorEnum p")
  case None
  with assms have "t = this\<lparr>error := error this\<rparr>" "t = this"
    by (simp_all add: fromProto_error_def)
  then show ?thesis by blast
next
  case (Some s)
  with assms show ?thesis
    by (auto simp: fromProto_error_def bindE_eq_Inr hasErrorEnum_def)
qed

lemma fromProto_counters_Inr:
  assumes "fromProto_counters env this p = Inr t"
  shows "(\<exists>v. t = this\<lparr>tezCounters := v\<rparr>) \<and> (\<not> hasCounters p \<longrightarrow> t = this)"
proof (cases "proto_counters p")
  case None
  with assms have "t = this\<lparr>tezCounters := tezCounters this\<rparr>" "t = this"
    by (simp_all add: fromProto_counters_def)
  then show ?thesis by blast
next
  case (Some s)
  with assms show ?thesis
    by (auto simp: fromProto_counters_def bindE_eq_Inr hasCounters_def)
qed

lemma fromProto_dataEvents_Inr:
  assumes "fromProto_dataEvents env this p = Inr t"
  shows "(\<exists>v. t = this\<lparr>dataEvents := v\<rparr>) \<and> (proto_dataEvents p = [] \<longrightarrow> t = this)"
proof (cases "proto_dataEvents p = []")
  case True
  with assms have "t = this\<lparr>dataEvents := dataEvents this\<rparr>" "t = this"
    by (simp_all add: fromProto_dataEvents_def getDataEventsCount_def)
  then show ?thesis by blast
next
  case False
  with assms show ?thesis
    by (auto simp: fromProto_dataEvents_def bindE_eq_Inr getDataEventsCount_def)
qed

lemma fromProto_taGeneratedEvents_Inr:
  assumes "fromProto_taGeneratedEvents env this p = Inr t"
  shows "(\<exists>v. t = this\<lparr>taGeneratedEvents := v\<rparr>) \<and> (proto_taGeneratedEvents p = [] \<longrightarrow> t = this)"
proof (cases "proto_taGeneratedEvents p = []")
  case True
  with assms have "t = this\<lparr>taGeneratedEvents := taGeneratedEvents this\<rparr>" "t = this"
    by (simp_all add: fromProto_taGeneratedEvents_def getTaGeneratedEventsCount_def)
  then show ?thesis by blast
next
  case False
  with assms show ?thesis
    by (auto simp: fromProto_taGeneratedEvents_def bindE_eq_Inr getTaGeneratedEventsCount_def)
qed

lemma fromProto_containerId_Inr:
  assumes "fromProto_containerId env this p = Inr t"
  shows "(\<exists>v. t = this\<lparr>containerId := v\<rparr>) \<and> (\<not> hasContainerId p \<longrightarrow> t = this)"
proof (cases "proto_containerId p")
  case None
  with assms have "t = this\<lparr>containerId := containerId this\<rparr>" "t = this"
    by (simp_all add: fromProto_containerId_def)
  then show ?thesis by blast
next
  case (Some s)
  with assms show ?thesis
    by (auto simp: fromProto_containerId_def bindE_eq_Inr hasContainerId_def)
qed

lemma fromProto_nodeId_Inr:
  assumes "fromProto_nodeId env this p = Inr t"
  shows "(\<exists>v. t = this\<lparr>nodeId := v\<rparr>) \<and> (\<not> hasNodeId p \<longrightarrow> t = this)"
proof (cases "proto_nodeId p")
  case None
  with assms have "t = this\<lparr>nodeId := nodeId this\<rparr>" "t = this"
    by (simp_all add: fromProto_nodeId_def)
  then show ?thesis by blast
next
  case (Some s)
  with assms show ?thesis
    by (auto simp: fromProto_nodeId_def bindE_eq_Inr hasNodeId_def)
qed

lemma fromProto_nodeHttpAddress_eq:
  "(\<exists>v. fromProto_nodeHttpAddress this p = this\<lparr>nodeHttpAddress := v\<rparr>) \<and>
   (\<not> hasNodeHttpAddress p \<longrightarrow> fromProto_nodeHttpAddress this p = this)"
proof (cases "proto_nodeHttpAddress p")
  case None
  then have "fromProto_nodeHttpAddress this p = this\<lparr>nodeHttpAddress := nodeHttpAddress this\<rparr>"
    "fromProto_nodeHttpAddress this p = this"
    by (simp_all add: fromProto_nodeHttpAddress_def)
  then show ?thesis by blast
next
  case (Some s)
  then show ?thesis
    by (auto simp: fromProto_nodeHttpAddress_def hasNodeHttpAddress_def)
qed

text \<open>The statements of a call that returns, one after the other.\<close>

lemma fromProto_Inr_steps:
  assumes "fromProto env this p = Inr e"
  shows "\<exists>t1 t2 t3 t4 t5 t6 t7 t8.
           fromProto_required env this p = Inr t1 \<and>
           fromProto_creationCausalTA env t1 p = Inr t2 \<and>
           fromProto_error env (fromProto_diagnostics t2 p) p = Inr t3 \<and>
           fromProto_counters env t3 p = Inr t4 \<and>
           fromProto_dataEvents env t4 p = Inr t5 \<and>
           fromProto_taGeneratedEvents env t5 p = Inr t6 \<and>
           fromProto_containerId env t6 p = Inr t7 \<and>
           fromProto_nodeId env t7 p = Inr t8 \<and>
           e = fromProto_nodeHttpAddress t8 p"
  using assms unfolding fromProto_def bindE_eq_Inr by (elim exE conjE) simp

text \<open>A call that returns has assigned fifteen fields of the receiver and no other.\<close>

lemma fromProto_Inr_form:
  assumes "fromProto env this p = Inr e"
  shows "\<exists>taId st cta dg er cn de tg cid nid nha.
           e = this\<lparr> taskAttemptId := taId, state := Some st,
                      creationTime := getCreationTime p, allocationTime := getAllocationTime p,
                      startTime := getStartTime p, finishTime := getFinishTime p,
                      creationCausalTA := cta, diagnostics := dg, error := er,
                      tezCounters := cn, dataEvents := de, taGeneratedEvents := tg,
                      containerId := cid, nodeId := nid, nodeHttpAddress := nha \<rparr>"
proof -
  from fromProto_Inr_steps [OF assms] obtain t1 t2 t3 t4 t5 t6 t7 t8 where
    s1: "fromProto_required env this p = Inr t1" and
    s2: "fromProto_creationCausalTA env t1 p = Inr t2" and
    s3: "fromProto_error env (fromProto_diagnostics t2 p) p = Inr t3" and
    s4: "fromProto_counters env t3 p = Inr t4" and
    s5: "fromProto_dataEvents env t4 p = Inr t5" and
    s6: "fromProto_taGeneratedEvents env t5 p = Inr t6" and
    s7: "fromProto_containerId env t6 p = Inr t7" and
    s8: "fromProto_nodeId env t7 p = Inr t8" and
    e: "e = fromProto_nodeHttpAddress t8 p"
    by blast
  from fromProto_required_Inr [OF s1] obtain taId st where
    t1: "t1 = this\<lparr> taskAttemptId := taId, state := Some st,
                      creationTime := getCreationTime p, allocationTime := getAllocationTime p,
                      startTime := getStartTime p, finishTime := getFinishTime p \<rparr>"
    by blast
  from fromProto_creationCausalTA_Inr [OF s2] obtain cta where
    t2: "t2 = t1\<lparr>creationCausalTA := cta\<rparr>" by blast
  define t2d where "t2d = fromProto_diagnostics t2 p"
  from fromProto_diagnostics_eq [of t2 p] obtain dg where
    d: "t2d = t2\<lparr>diagnostics := dg\<rparr>" unfolding t2d_def by blast
  from fromProto_error_Inr [OF s3] obtain er where
    t3: "t3 = t2d\<lparr>error := er\<rparr>" unfolding t2d_def by blast
  from fromProto_counters_Inr [OF s4] obtain cn where
    t4: "t4 = t3\<lparr>tezCounters := cn\<rparr>" by blast
  from fromProto_dataEvents_Inr [OF s5] obtain de where
    t5: "t5 = t4\<lparr>dataEvents := de\<rparr>" by blast
  from fromProto_taGeneratedEvents_Inr [OF s6] obtain tg where
    t6: "t6 = t5\<lparr>taGeneratedEvents := tg\<rparr>" by blast
  from fromProto_containerId_Inr [OF s7] obtain cid where
    t7: "t7 = t6\<lparr>containerId := cid\<rparr>" by blast
  from fromProto_nodeId_Inr [OF s8] obtain nid where
    t8: "t8 = t7\<lparr>nodeId := nid\<rparr>" by blast
  from fromProto_nodeHttpAddress_eq [of t8 p] obtain nha where
    n: "e = t8\<lparr>nodeHttpAddress := nha\<rparr>" unfolding e by blast
  have "e = this\<lparr> taskAttemptId := taId, state := Some st,
                      creationTime := getCreationTime p, allocationTime := getAllocationTime p,
                      startTime := getStartTime p, finishTime := getFinishTime p,
                      creationCausalTA := cta, diagnostics := dg, error := er,
                      tezCounters := cn, dataEvents := de, taGeneratedEvents := tg,
                      containerId := cid, nodeId := nid, nodeHttpAddress := nha \<rparr>"
    unfolding n t8 t7 t6 t5 t4 t3 d t2 t1 by simp
  then show ?thesis by blast
qed

lemma fromProto_untouched:
  assumes "fromProto env this p = Inr e"
  shows "vertexName e = vertexName this"
    and "inProgressLogsUrl e = inProgressLogsUrl this"
    and "completedLogsUrl e = completedLogsUrl this"
  using fromProto_Inr_form [OF assms] by auto

lemma fromProto_times:
  assumes "fromProto env this p = Inr e"
  shows "creationTime e = getCreationTime p"
    and "allocationTime e = getAllocationTime p"
    and "startTime e = getStartTime p"
    and "finishTime e = getFinishTime p"
  using fromProto_Inr_form [OF assms] by auto

text \<open>A field whose conditional is not entered keeps the receiver's value.\<close>

lemma fromProto_absent:
  assumes "fromProto env this p = Inr e"
  shows "\<not> hasCreationCausalTA p \<Longrightarrow> creationCausalTA e = creationCausalTA this"
    and "\<not> hasDiagnostics p \<Longrightarrow> diagnostics e = diagnostics this"
    and "\<not> hasErrorEnum p \<Longrightarrow> error e = error this"
    and "\<not> hasCounters p \<Longrightarrow> tezCounters e = tezCounters this"
    and "proto_dataEvents p = [] \<Longrightarrow> dataEvents e = dataEvents this"
    and "proto_taGeneratedEvents p = [] \<Longrightarrow> taGeneratedEvents e = taGeneratedEvents this"
    and "\<not> hasContainerId p \<Longrightarrow> containerId e = containerId this"
    and "\<not> hasNodeId p \<Longrightarrow> nodeId e = nodeId this"
    and "\<not> hasNodeHttpAddress p \<Longrightarrow> nodeHttpAddress e = nodeHttpAddress this"
proof -
  from fromProto_Inr_steps [OF assms] obtain t1 t2 t3 t4 t5 t6 t7 t8 where
    s1: "fromProto_required env this p = Inr t1" and
    s2: "fromProto_creationCausalTA env t1 p = Inr t2" and
    s3: "fromProto_error env (fromProto_diagnostics t2 p) p = Inr t3" and
    s4: "fromProto_counters env t3 p = Inr t4" and
    s5: "fromProto_dataEvents env t4 p = Inr t5" and
    s6: "fromProto_taGeneratedEvents env t5 p = Inr t6" and
    s7: "fromProto_containerId env t6 p = Inr t7" and
    s8: "fromProto_nodeId env t7 p = Inr t8" and
    e: "e = fromProto_nodeHttpAddress t8 p"
    by blast
  from fromProto_required_Inr [OF s1] obtain taId st where
    t1: "t1 = this\<lparr> taskAttemptId := taId, state := Some st,
                      creationTime := getCreationTime p, allocationTime := getAllocationTime p,
                      startTime := getStartTime p, finishTime := getFinishTime p \<rparr>"
    by blast
  from fromProto_creationCausalTA_Inr [OF s2] obtain cta where
    t2: "t2 = t1\<lparr>creationCausalTA := cta\<rparr>" and t2': "\<not> hasCreationCausalTA p \<Longrightarrow> t2 = t1"
    by blast
  define t2d where "t2d = fromProto_diagnostics t2 p"
  from fromProto_diagnostics_eq [of t2 p] obtain dg where
    d: "t2d = t2\<lparr>diagnostics := dg\<rparr>" and
    d': "\<not> hasDiagnostics p \<Longrightarrow> t2d = t2"
    unfolding t2d_def by blast
  from fromProto_error_Inr [OF s3] obtain er where
    t3: "t3 = t2d\<lparr>error := er\<rparr>" and
    t3': "\<not> hasErrorEnum p \<Longrightarrow> t3 = t2d"
    unfolding t2d_def by blast
  from fromProto_counters_Inr [OF s4] obtain cn where
    t4: "t4 = t3\<lparr>tezCounters := cn\<rparr>" and t4': "\<not> hasCounters p \<Longrightarrow> t4 = t3"
    by blast
  from fromProto_dataEvents_Inr [OF s5] obtain de where
    t5: "t5 = t4\<lparr>dataEvents := de\<rparr>" and t5': "proto_dataEvents p = [] \<Longrightarrow> t5 = t4"
    by blast
  from fromProto_taGeneratedEvents_Inr [OF s6] obtain tg where
    t6: "t6 = t5\<lparr>taGeneratedEvents := tg\<rparr>" and
    t6': "proto_taGeneratedEvents p = [] \<Longrightarrow> t6 = t5"
    by blast
  from fromProto_containerId_Inr [OF s7] obtain cid where
    t7: "t7 = t6\<lparr>containerId := cid\<rparr>" and t7': "\<not> hasContainerId p \<Longrightarrow> t7 = t6"
    by blast
  from fromProto_nodeId_Inr [OF s8] obtain nid where
    t8: "t8 = t7\<lparr>nodeId := nid\<rparr>" and t8': "\<not> hasNodeId p \<Longrightarrow> t8 = t7"
    by blast
  from fromProto_nodeHttpAddress_eq [of t8 p] obtain nha where
    n: "e = t8\<lparr>nodeHttpAddress := nha\<rparr>" and
    n': "\<not> hasNodeHttpAddress p \<Longrightarrow> e = t8"
    unfolding e by blast
  show "\<not> hasCreationCausalTA p \<Longrightarrow> creationCausalTA e = creationCausalTA this"
  proof -
    assume a: "\<not> hasCreationCausalTA p"
    have "creationCausalTA e = creationCausalTA t2"
      unfolding n t8 t7 t6 t5 t4 t3 d by simp
    also have "\<dots> = creationCausalTA this" unfolding t2' [OF a] t1 by simp
    finally show ?thesis .
  qed
  show "\<not> hasDiagnostics p \<Longrightarrow> diagnostics e = diagnostics this"
  proof -
    assume a: "\<not> hasDiagnostics p"
    have "diagnostics e = diagnostics t2d"
      unfolding n t8 t7 t6 t5 t4 t3 by simp
    also have "\<dots> = diagnostics this" unfolding d' [OF a] t2 t1 by simp
    finally show ?thesis .
  qed
  show "\<not> hasErrorEnum p \<Longrightarrow> error e = error this"
  proof -
    assume a: "\<not> hasErrorEnum p"
    have "error e = error t3"
      unfolding n t8 t7 t6 t5 t4 by simp
    also have "\<dots> = error this" unfolding t3' [OF a] d t2 t1 by simp
    finally show ?thesis .
  qed
  show "\<not> hasCounters p \<Longrightarrow> tezCounters e = tezCounters this"
  proof -
    assume a: "\<not> hasCounters p"
    have "tezCounters e = tezCounters t4"
      unfolding n t8 t7 t6 t5 by simp
    also have "\<dots> = tezCounters this" unfolding t4' [OF a] t3 d t2 t1 by simp
    finally show ?thesis .
  qed
  show "proto_dataEvents p = [] \<Longrightarrow> dataEvents e = dataEvents this"
  proof -
    assume a: "proto_dataEvents p = []"
    have "dataEvents e = dataEvents t5"
      unfolding n t8 t7 t6 by simp
    also have "\<dots> = dataEvents this" unfolding t5' [OF a] t4 t3 d t2 t1 by simp
    finally show ?thesis .
  qed
  show "proto_taGeneratedEvents p = [] \<Longrightarrow> taGeneratedEvents e = taGeneratedEvents this"
  proof -
    assume a: "proto_taGeneratedEvents p = []"
    have "taGeneratedEvents e = taGeneratedEvents t6"
      unfolding n t8 t7 by simp
    also have "\<dots> = taGeneratedEvents this" unfolding t6' [OF a] t5 t4 t3 d t2 t1 by simp
    finally show ?thesis .
  qed
  show "\<not> hasContainerId p \<Longrightarrow> containerId e = containerId this"
  proof -
    assume a: "\<not> hasContainerId p"
    have "containerId e = containerId t7"
      unfolding n t8 by simp
    also have "\<dots> = containerId this" unfolding t7' [OF a] t6 t5 t4 t3 d t2 t1 by simp
    finally show ?thesis .
  qed
  show "\<not> hasNodeId p \<Longrightarrow> nodeId e = nodeId this"
  proof -
    assume a: "\<not> hasNodeId p"
    have "nodeId e = nodeId t8"
      unfolding n by simp
    also have "\<dots> = nodeId this" unfolding t8' [OF a] t7 t6 t5 t4 t3 d t2 t1 by simp
    finally show ?thesis .
  qed
  show "\<not> hasNodeHttpAddress p \<Longrightarrow> nodeHttpAddress e = nodeHttpAddress this"
  proof -
    assume a: "\<not> hasNodeHttpAddress p"
    show ?thesis unfolding n' [OF a] t8 t7 t6 t5 t4 t3 d t2 t1 by simp
  qed
qed

subsection \<open>Definitions to evaluate with\<close>

lemmas toProto_defs =
  toProto_def toProto_required_def toProto_counters_def toProto_error_def
  toProto_diagnostics_def toProto_creationCausalTA_def toProto_dataEvents_def
  toProto_taGeneratedEvents_def toProto_nodeHttpAddress_def toProto_nodeId_def
  toProto_containerId_def

lemmas fromProto_defs =
  fromProto_def fromProto_required_def fromProto_creationCausalTA_def
  fromProto_diagnostics_def fromProto_error_def fromProto_counters_def
  fromProto_dataEvents_def fromProto_taGeneratedEvents_def fromProto_containerId_def
  fromProto_nodeId_def fromProto_nodeHttpAddress_def

lemmas proto_getter_defs =
  getTaskAttemptId_def getState_def getCreationTime_def getAllocationTime_def
  getStartTime_def getFinishTime_def getDataEventsCount_def getTaGeneratedEventsCount_def
  hasCreationCausalTA_def hasDiagnostics_def hasErrorEnum_def hasCounters_def
  hasContainerId_def hasNodeId_def hasNodeHttpAddress_def

lemmas sample_defs =
  sampleCollaborators_def sampleWriteDelimitedTo_def sampleParseDelimitedFrom_def
  newTaskAttemptFinishedEvent_def emptyTaskAttemptFinishedEvent_def newBuilder_def

lemma sampleSparseProto_decodes:
  "fromProto sampleCollaborators emptyTaskAttemptFinishedEvent sampleSparseProto =
     Inr sampleSparseDecoded"
  by (simp add: fromProto_defs proto_getter_defs sample_defs sampleSparseProto_def
      sampleSparseDecoded_def bindE_def valuesAt_def)

subsection \<open>Enums\<close>

lemma ordinal_less: "c \<in> set vs \<Longrightarrow> ordinal vs c < length vs"
  by (induction vs) auto

lemma nth_ordinal: "c \<in> set vs \<Longrightarrow> vs ! ordinal vs c = c"
  by (induction vs) auto

lemma sint_of_nat_jint: "n < 2 ^ 31 \<Longrightarrow> sint (of_nat n :: jint) = int n"
  by (simp add: signed_of_nat signed_take_bit_int_eq_self)

lemma valuesAt_ordinal:
  assumes "c \<in> set vs" and "length vs < 2 ^ 31"
  shows "valuesAt vs (of_nat (ordinal vs c)) = Inr c"
proof -
  have lt: "ordinal vs c < length vs" using assms(1) by (rule ordinal_less)
  then have "ordinal vs c < 2 ^ 31" using assms(2) by simp
  then have "sint (of_nat (ordinal vs c) :: jint) = int (ordinal vs c)"
    by (rule sint_of_nat_jint)
  then show ?thesis using lt assms(1) by (simp add: valuesAt_def nth_ordinal)
qed

lemma find_name:
  assumes "inj_on nm (set vs)" and "c \<in> set vs"
  shows "find (\<lambda>d. nm d = nm c) vs = Some c"
  using assms
proof (induction vs)
  case Nil
  then show ?case by simp
next
  case (Cons v vs)
  show ?case
  proof (cases "nm v = nm c")
    case True
    with Cons.prems have "v = c" by (auto simp: inj_on_def)
    then show ?thesis by simp
  next
    case False
    with Cons.prems have "c \<in> set vs" "inj_on nm (set vs)" by auto
    with Cons.IH False show ?thesis by simp
  qed
qed

lemma valueOf_name:
  "inj_on nm (set vs) \<Longrightarrow> c \<in> set vs \<Longrightarrow> valueOf nm vs (nm c) = Inr c"
  by (simp add: valueOf_def find_name)

lemma valueOf_unknown:
  "s \<notin> nm ` set vs \<Longrightarrow> valueOf nm vs s = Inl (IllegalArgumentException s)"
proof -
  assume "s \<notin> nm ` set vs"
  then have "find (\<lambda>c. nm c = s) vs = None" by (auto simp: find_None_iff)
  then show ?thesis by (simp add: valueOf_def)
qed

lemma valuesAt_out_of_range:
  "\<not> (0 \<le> sint i \<and> sint i < int (length vs)) \<Longrightarrow>
     valuesAt vs i = Inl (ArrayIndexOutOfBoundsException (sint i))"
  by (simp add: valuesAt_def)

subsection \<open>What each statement of toProto writes\<close>

lemma toProto_required_Inr:
  assumes "toProto_required env this = Inr b"
  shows "\<exists>ta st. taskAttemptId this = Some ta \<and> state this = Some st \<and>
           b = newBuilder\<lparr> proto_taskAttemptId := Some (taToString env ta),
                            proto_state := Some (of_nat (ordinal (stateValues env) st)),
                            proto_creationTime := Some (creationTime this),
                            proto_allocationTime := Some (allocationTime this),
                            proto_startTime := Some (startTime this),
                            proto_finishTime := Some (finishTime this) \<rparr>"
  using assms by (auto simp: toProto_required_def split: option.splits)

lemma toProto_creationCausalTA_eq:
  "toProto_creationCausalTA env this b =
     b\<lparr>proto_creationCausalTA :=
         (case creationCausalTA this of
            None \<Rightarrow> proto_creationCausalTA b
          | Some ta \<Rightarrow> Some (taToString env ta))\<rparr>"
  by (cases "creationCausalTA this") (simp_all add: toProto_creationCausalTA_def)

lemma toProto_diagnostics_eq:
  "toProto_diagnostics this b =
     b\<lparr>proto_diagnostics :=
         (case diagnostics this of None \<Rightarrow> proto_diagnostics b | Some d \<Rightarrow> Some d)\<rparr>"
  by (cases "diagnostics this") (simp_all add: toProto_diagnostics_def)

lemma toProto_error_eq:
  "toProto_error env this b =
     b\<lparr>proto_errorEnum :=
         (case error this of None \<Rightarrow> proto_errorEnum b | Some er \<Rightarrow> Some (errorName env er))\<rparr>"
  by (cases "error this") (simp_all add: toProto_error_def)

lemma toProto_containerId_eq:
  "toProto_containerId env this b =
     b\<lparr>proto_containerId :=
         (case containerId this of
            None \<Rightarrow> proto_containerId b
          | Some c \<Rightarrow> Some (containerIdToString env c))\<rparr>"
  by (cases "containerId this") (simp_all add: toProto_containerId_def)

lemma toProto_nodeId_eq:
  "toProto_nodeId env this b =
     b\<lparr>proto_nodeId :=
         (case nodeId this of None \<Rightarrow> proto_nodeId b | Some n \<Rightarrow> Some (nodeIdToString env n))\<rparr>"
  by (cases "nodeId this") (simp_all add: toProto_nodeId_def)

lemma toProto_nodeHttpAddress_eq:
  "toProto_nodeHttpAddress this b =
     b\<lparr>proto_nodeHttpAddress :=
         (case nodeHttpAddress this of None \<Rightarrow> proto_nodeHttpAddress b | Some a \<Rightarrow> Some a)\<rparr>"
  by (cases "nodeHttpAddress this") (simp_all add: toProto_nodeHttpAddress_def)

lemma toProto_counters_Inr:
  assumes "toProto_counters env this b = Inr b'"
  shows "\<exists>pc. b' = b\<lparr>proto_counters := pc\<rparr> \<and>
           (case tezCounters this of
              None \<Rightarrow> pc = proto_counters b
            | Some c \<Rightarrow> \<exists>cp. convertTezCountersToProto env c = Inr cp \<and> pc = Some cp)"
proof (cases "tezCounters this")
  case None
  with assms have "b' = b\<lparr>proto_counters := proto_counters b\<rparr>"
    by (simp add: toProto_counters_def)
  with None show ?thesis by auto
next
  case (Some c)
  with assms show ?thesis by (auto simp: toProto_counters_def bindE_eq_Inr)
qed

lemma addAllDataEvents_Inr:
  "addAllDataEvents env infos b = Inr b' \<Longrightarrow>
     \<exists>ips. b' = b\<lparr>proto_dataEvents := proto_dataEvents b @ ips\<rparr> \<and>
           list_all2 (\<lambda>info ip. dataEventToProto env info = Inr ip) infos ips"
proof (induction infos arbitrary: b)
  case Nil
  then have "b' = b\<lparr>proto_dataEvents := proto_dataEvents b @ []\<rparr>" by simp
  then show ?case by (intro exI [of _ "[]"]) simp
next
  case (Cons info rest)
  from Cons.prems obtain ip where
    ip: "dataEventToProto env info = Inr ip" and
    r: "addAllDataEvents env rest (b\<lparr>proto_dataEvents := proto_dataEvents b @ [ip]\<rparr>) = Inr b'"
    by (auto simp: bindE_eq_Inr)
  from Cons.IH [OF r] obtain ips where
    b': "b' = b\<lparr>proto_dataEvents := proto_dataEvents b @ [ip]\<rparr>
               \<lparr>proto_dataEvents :=
                  proto_dataEvents (b\<lparr>proto_dataEvents := proto_dataEvents b @ [ip]\<rparr>) @ ips\<rparr>" and
    all: "list_all2 (\<lambda>info ip. dataEventToProto env info = Inr ip) rest ips"
    by blast
  from b' have "b' = b\<lparr>proto_dataEvents := proto_dataEvents b @ (ip # ips)\<rparr>" by simp
  with ip all show ?case by (intro exI [of _ "ip # ips"]) simp
qed

lemma addAllTaGeneratedEvents_Inr:
  "addAllTaGeneratedEvents env events b = Inr b' \<Longrightarrow>
     \<exists>eps. b' = b\<lparr>proto_taGeneratedEvents := proto_taGeneratedEvents b @ eps\<rparr> \<and>
           list_all2 (\<lambda>event ep. tezEventToProto env event = Inr ep) events eps"
proof (induction events arbitrary: b)
  case Nil
  then have "b' = b\<lparr>proto_taGeneratedEvents := proto_taGeneratedEvents b @ []\<rparr>" by simp
  then show ?case by (intro exI [of _ "[]"]) simp
next
  case (Cons event rest)
  from Cons.prems obtain ep where
    ep: "tezEventToProto env event = Inr ep" and
    r: "addAllTaGeneratedEvents env rest
          (b\<lparr>proto_taGeneratedEvents := proto_taGeneratedEvents b @ [ep]\<rparr>) = Inr b'"
    by (auto simp: bindE_eq_Inr)
  from Cons.IH [OF r] obtain eps where
    b': "b' = b\<lparr>proto_taGeneratedEvents := proto_taGeneratedEvents b @ [ep]\<rparr>
               \<lparr>proto_taGeneratedEvents :=
                  proto_taGeneratedEvents
                    (b\<lparr>proto_taGeneratedEvents := proto_taGeneratedEvents b @ [ep]\<rparr>) @ eps\<rparr>" and
    all: "list_all2 (\<lambda>event ep. tezEventToProto env event = Inr ep) rest eps"
    by blast
  from b' have "b' = b\<lparr>proto_taGeneratedEvents := proto_taGeneratedEvents b @ (ep # eps)\<rparr>"
    by simp
  with ep all show ?case by (intro exI [of _ "ep # eps"]) simp
qed

lemma toProto_dataEvents_Inr:
  assumes "toProto_dataEvents env this b = Inr b'"
  shows "\<exists>ips. b' = b\<lparr>proto_dataEvents := proto_dataEvents b @ ips\<rparr> \<and>
           list_all2 (\<lambda>info ip. dataEventToProto env info = Inr ip) (elements (dataEvents this)) ips"
proof (cases "dataEvents this")
  case None
  with assms have "b' = b\<lparr>proto_dataEvents := proto_dataEvents b @ []\<rparr>"
    by (simp add: toProto_dataEvents_def)
  with None show ?thesis by (intro exI [of _ "[]"]) (simp add: elements_def)
next
  case (Some infos)
  show ?thesis
  proof (cases "infos = []")
    case True
    with Some assms have "b' = b\<lparr>proto_dataEvents := proto_dataEvents b @ []\<rparr>"
      by (simp add: toProto_dataEvents_def)
    with Some True show ?thesis by (intro exI [of _ "[]"]) (simp add: elements_def)
  next
    case False
    with Some assms have "addAllDataEvents env infos b = Inr b'"
      by (simp add: toProto_dataEvents_def)
    from addAllDataEvents_Inr [OF this] Some show ?thesis by (simp add: elements_def)
  qed
qed

lemma toProto_taGeneratedEvents_Inr:
  assumes "toProto_taGeneratedEvents env this b = Inr b'"
  shows "\<exists>eps. b' = b\<lparr>proto_taGeneratedEvents := proto_taGeneratedEvents b @ eps\<rparr> \<and>
           list_all2 (\<lambda>event ep. tezEventToProto env event = Inr ep)
             (elements (taGeneratedEvents this)) eps"
proof (cases "taGeneratedEvents this")
  case None
  with assms have "b' = b\<lparr>proto_taGeneratedEvents := proto_taGeneratedEvents b @ []\<rparr>"
    by (simp add: toProto_taGeneratedEvents_def)
  with None show ?thesis by (intro exI [of _ "[]"]) (simp add: elements_def)
next
  case (Some events)
  show ?thesis
  proof (cases "events = []")
    case True
    with Some assms have "b' = b\<lparr>proto_taGeneratedEvents := proto_taGeneratedEvents b @ []\<rparr>"
      by (simp add: toProto_taGeneratedEvents_def)
    with Some True show ?thesis by (intro exI [of _ "[]"]) (simp add: elements_def)
  next
    case False
    with Some assms have "addAllTaGeneratedEvents env events b = Inr b'"
      by (simp add: toProto_taGeneratedEvents_def)
    from addAllTaGeneratedEvents_Inr [OF this] Some show ?thesis by (simp add: elements_def)
  qed
qed

lemma toProto_Inr_steps:
  assumes "toProto env this = Inr p"
  shows "\<exists>b1 b2 b3 b4.
           toProto_required env this = Inr b1 \<and>
           toProto_counters env this
             (toProto_error env this
               (toProto_diagnostics this (toProto_creationCausalTA env this b1))) = Inr b2 \<and>
           toProto_dataEvents env this b2 = Inr b3 \<and>
           toProto_taGeneratedEvents env this b3 = Inr b4 \<and>
           p = toProto_nodeHttpAddress this
                 (toProto_nodeId env this (toProto_containerId env this b4))"
  using assms unfolding toProto_def bindE_eq_Inr by (elim exE conjE) simp

text \<open>The message \<open>toProto\<close> returns, field by field.\<close>

lemma toProto_fields:
  assumes "toProto env this = Inr p"
  shows "proto_taskAttemptId p = map_option (taToString env) (taskAttemptId this)"
    and "proto_state p = map_option (\<lambda>st. of_nat (ordinal (stateValues env) st)) (state this)"
    and "proto_creationTime p = Some (creationTime this)"
    and "proto_allocationTime p = Some (allocationTime this)"
    and "proto_startTime p = Some (startTime this)"
    and "proto_finishTime p = Some (finishTime this)"
    and "proto_creationCausalTA p = map_option (taToString env) (creationCausalTA this)"
    and "proto_diagnostics p = diagnostics this"
    and "proto_errorEnum p = map_option (errorName env) (error this)"
    and "rel_option (\<lambda>c cp. convertTezCountersToProto env c = Inr cp)
           (tezCounters this) (proto_counters p)"
    and "list_all2 (\<lambda>info ip. dataEventToProto env info = Inr ip)
           (elements (dataEvents this)) (proto_dataEvents p)"
    and "list_all2 (\<lambda>event ep. tezEventToProto env event = Inr ep)
           (elements (taGeneratedEvents this)) (proto_taGeneratedEvents p)"
    and "proto_containerId p = map_option (containerIdToString env) (containerId this)"
    and "proto_nodeId p = map_option (nodeIdToString env) (nodeId this)"
    and "proto_nodeHttpAddress p = nodeHttpAddress this"
proof -
  from toProto_Inr_steps [OF assms] obtain b1 b2 b3 b4 where
    s1: "toProto_required env this = Inr b1" and
    s2: "toProto_counters env this
           (toProto_error env this
             (toProto_diagnostics this (toProto_creationCausalTA env this b1))) = Inr b2" and
    s3: "toProto_dataEvents env this b2 = Inr b3" and
    s4: "toProto_taGeneratedEvents env this b3 = Inr b4" and
    p: "p = toProto_nodeHttpAddress this
              (toProto_nodeId env this (toProto_containerId env this b4))"
    by blast
  from toProto_required_Inr [OF s1] obtain ta st where
    ta: "taskAttemptId this = Some ta" and st: "state this = Some st" and
    b1: "b1 = newBuilder\<lparr> proto_taskAttemptId := Some (taToString env ta),
                            proto_state := Some (of_nat (ordinal (stateValues env) st)),
                            proto_creationTime := Some (creationTime this),
                            proto_allocationTime := Some (allocationTime this),
                            proto_startTime := Some (startTime this),
                            proto_finishTime := Some (finishTime this) \<rparr>"
    by blast
  define b1e where
    "b1e = toProto_error env this
             (toProto_diagnostics this (toProto_creationCausalTA env this b1))"
  have b1e: "b1e = b1\<lparr> proto_creationCausalTA := map_option (taToString env) (creationCausalTA this),
                       proto_diagnostics := diagnostics this,
                       proto_errorEnum := map_option (errorName env) (error this) \<rparr>"
    unfolding b1e_def toProto_error_eq toProto_diagnostics_eq toProto_creationCausalTA_eq b1
    by (simp add: newBuilder_def split: option.splits)
  from toProto_counters_Inr [OF s2 [folded b1e_def]] obtain pc where
    b2: "b2 = b1e\<lparr>proto_counters := pc\<rparr>" and
    pc: "case tezCounters this of
           None \<Rightarrow> pc = proto_counters b1e
         | Some c \<Rightarrow> \<exists>cp. convertTezCountersToProto env c = Inr cp \<and> pc = Some cp"
    by blast
  have pc': "rel_option (\<lambda>c cp. convertTezCountersToProto env c = Inr cp) (tezCounters this) pc"
    using pc by (cases "tezCounters this") (auto simp: b1e b1 newBuilder_def)
  from toProto_dataEvents_Inr [OF s3] obtain ips where
    b3: "b3 = b2\<lparr>proto_dataEvents := proto_dataEvents b2 @ ips\<rparr>" and
    ips: "list_all2 (\<lambda>info ip. dataEventToProto env info = Inr ip) (elements (dataEvents this)) ips"
    by blast
  from toProto_taGeneratedEvents_Inr [OF s4] obtain eps where
    b4: "b4 = b3\<lparr>proto_taGeneratedEvents := proto_taGeneratedEvents b3 @ eps\<rparr>" and
    eps: "list_all2 (\<lambda>event ep. tezEventToProto env event = Inr ep)
            (elements (taGeneratedEvents this)) eps"
    by blast
  have form: "p = newBuilder
      \<lparr> proto_taskAttemptId := Some (taToString env ta),
        proto_state := Some (of_nat (ordinal (stateValues env) st)),
        proto_creationTime := Some (creationTime this),
        proto_allocationTime := Some (allocationTime this),
        proto_startTime := Some (startTime this),
        proto_finishTime := Some (finishTime this),
        proto_creationCausalTA := map_option (taToString env) (creationCausalTA this),
        proto_diagnostics := diagnostics this,
        proto_errorEnum := map_option (errorName env) (error this),
        proto_counters := pc,
        proto_dataEvents := ips,
        proto_taGeneratedEvents := eps,
        proto_containerId := map_option (containerIdToString env) (containerId this),
        proto_nodeId := map_option (nodeIdToString env) (nodeId this),
        proto_nodeHttpAddress := nodeHttpAddress this \<rparr>"
    unfolding p toProto_nodeHttpAddress_eq toProto_nodeId_eq toProto_containerId_eq
      b4 b3 b2 b1e b1
    by (simp add: newBuilder_def split: option.splits)
  show "proto_taskAttemptId p = map_option (taToString env) (taskAttemptId this)"
    and "proto_state p = map_option (\<lambda>st. of_nat (ordinal (stateValues env) st)) (state this)"
    and "proto_creationTime p = Some (creationTime this)"
    and "proto_allocationTime p = Some (allocationTime this)"
    and "proto_startTime p = Some (startTime this)"
    and "proto_finishTime p = Some (finishTime this)"
    and "proto_creationCausalTA p = map_option (taToString env) (creationCausalTA this)"
    and "proto_diagnostics p = diagnostics this"
    and "proto_errorEnum p = map_option (errorName env) (error this)"
    and "rel_option (\<lambda>c cp. convertTezCountersToProto env c = Inr cp)
           (tezCounters this) (proto_counters p)"
    and "list_all2 (\<lambda>info ip. dataEventToProto env info = Inr ip)
           (elements (dataEvents this)) (proto_dataEvents p)"
    and "list_all2 (\<lambda>event ep. tezEventToProto env event = Inr ep)
           (elements (taGeneratedEvents this)) (proto_taGeneratedEvents p)"
    and "proto_containerId p = map_option (containerIdToString env) (containerId this)"
    and "proto_nodeId p = map_option (nodeIdToString env) (nodeId this)"
    and "proto_nodeHttpAddress p = nodeHttpAddress this"
    using ta st pc' ips eps by (simp_all add: form)
qed

subsection \<open>When toProto returns\<close>

lemma addAllDataEvents_succeeds:
  "list_all (\<lambda>info. \<exists>ip. dataEventToProto env info = Inr ip) infos \<Longrightarrow>
     \<exists>b'. addAllDataEvents env infos b = Inr b'"
proof (induction infos arbitrary: b)
  case Nil
  then show ?case by simp
next
  case (Cons info rest)
  then obtain ip where ip: "dataEventToProto env info = Inr ip" by auto
  from Cons have "\<exists>b'. addAllDataEvents env rest
      (b\<lparr>proto_dataEvents := proto_dataEvents b @ [ip]\<rparr>) = Inr b'"
    by simp
  with ip show ?case by (simp add: bindE_Inr)
qed

lemma addAllTaGeneratedEvents_succeeds:
  "list_all (\<lambda>event. \<exists>ep. tezEventToProto env event = Inr ep) events \<Longrightarrow>
     \<exists>b'. addAllTaGeneratedEvents env events b = Inr b'"
proof (induction events arbitrary: b)
  case Nil
  then show ?case by simp
next
  case (Cons event rest)
  then obtain ep where ep: "tezEventToProto env event = Inr ep" by auto
  from Cons have "\<exists>b'. addAllTaGeneratedEvents env rest
      (b\<lparr>proto_taGeneratedEvents := proto_taGeneratedEvents b @ [ep]\<rparr>) = Inr b'"
    by simp
  with ep show ?case by (simp add: bindE_Inr)
qed

lemma converters_invert_dataEvents:
  assumes "converters_invert env this"
  shows "list_all (\<lambda>info. \<exists>ip. dataEventToProto env info = Inr ip \<and>
                              dataEventFromProto env ip = Inr info) (elements (dataEvents this))"
proof (cases "dataEvents this")
  case None
  then show ?thesis by (simp add: elements_def)
next
  case (Some infos)
  with assms have "list_all (\<lambda>info. case dataEventToProto env info of
                                      Inl x \<Rightarrow> False
                                    | Inr ip \<Rightarrow> dataEventFromProto env ip = Inr info) infos"
    by (simp add: converters_invert_def)
  then have "list_all (\<lambda>info. \<exists>ip. dataEventToProto env info = Inr ip \<and>
                              dataEventFromProto env ip = Inr info) infos"
    by (rule list.pred_mono_strong) (auto split: sum.splits)
  with Some show ?thesis by (simp add: elements_def)
qed

lemma converters_invert_taGeneratedEvents:
  assumes "converters_invert env this"
  shows "list_all (\<lambda>event. \<exists>ep. tezEventToProto env event = Inr ep \<and>
                              tezEventFromProto env ep = Inr event)
           (elements (taGeneratedEvents this))"
proof (cases "taGeneratedEvents this")
  case None
  then show ?thesis by (simp add: elements_def)
next
  case (Some events)
  with assms have "list_all (\<lambda>event. case tezEventToProto env event of
                                       Inl x \<Rightarrow> False
                                     | Inr ep \<Rightarrow> tezEventFromProto env ep = Inr event) events"
    by (simp add: converters_invert_def)
  then have "list_all (\<lambda>event. \<exists>ep. tezEventToProto env event = Inr ep \<and>
                              tezEventFromProto env ep = Inr event) events"
    by (rule list.pred_mono_strong) (auto split: sum.splits)
  with Some show ?thesis by (simp add: elements_def)
qed

lemma toProto_succeeds:
  assumes id: "taskAttemptId this \<noteq> None" and st: "state this \<noteq> None"
    and inv: "converters_invert env this"
  shows "\<exists>p. toProto env this = Inr p"
proof -
  from id st obtain b1 where s1: "toProto_required env this = Inr b1"
    by (auto simp: toProto_required_def)
  have "\<exists>b2. toProto_counters env this b = Inr b2" for b
  proof (cases "tezCounters this")
    case None
    then show ?thesis by (simp add: toProto_counters_def)
  next
    case (Some c)
    with inv obtain cp where "convertTezCountersToProto env c = Inr cp"
      by (auto simp: converters_invert_def split: sum.splits)
    with Some show ?thesis by (simp add: toProto_counters_def bindE_Inr)
  qed
  then obtain b2 where s2: "toProto_counters env this
      (toProto_error env this
        (toProto_diagnostics this (toProto_creationCausalTA env this b1))) = Inr b2"
    by blast
  have "\<exists>b3. toProto_dataEvents env this b = Inr b3" for b
  proof (cases "dataEvents this")
    case None
    then show ?thesis by (simp add: toProto_dataEvents_def)
  next
    case (Some infos)
    from converters_invert_dataEvents [OF inv] Some
    have "list_all (\<lambda>info. \<exists>ip. dataEventToProto env info = Inr ip) infos"
      by (auto simp: elements_def list_all_iff)
    from addAllDataEvents_succeeds [OF this] Some show ?thesis
      by (simp add: toProto_dataEvents_def)
  qed
  then obtain b3 where s3: "toProto_dataEvents env this b2 = Inr b3" by blast
  have "\<exists>b4. toProto_taGeneratedEvents env this b = Inr b4" for b
  proof (cases "taGeneratedEvents this")
    case None
    then show ?thesis by (simp add: toProto_taGeneratedEvents_def)
  next
    case (Some events)
    from converters_invert_taGeneratedEvents [OF inv] Some
    have "list_all (\<lambda>event. \<exists>ep. tezEventToProto env event = Inr ep) events"
      by (auto simp: elements_def list_all_iff)
    from addAllTaGeneratedEvents_succeeds [OF this] Some show ?thesis
      by (simp add: toProto_taGeneratedEvents_def)
  qed
  then obtain b4 where s4: "toProto_taGeneratedEvents env this b3 = Inr b4" by blast
  from s1 s2 s3 s4 show ?thesis by (simp add: toProto_def bindE_Inr)
qed

subsection \<open>Reading back what was written\<close>

lemma dataEventsFromList_all2:
  "list_all2 (\<lambda>info ip. dataEventFromProto env ip = Inr info) infos ips \<Longrightarrow>
     dataEventsFromList env ips acc = Inr (acc @ infos)"
proof (induction infos ips arbitrary: acc rule: list_all2_induct)
  case Nil
  then show ?case by simp
next
  case (Cons info infos ip ips)
  then show ?case by (simp add: bindE_Inr)
qed

lemma taGeneratedEventsFromList_all2:
  "list_all2 (\<lambda>event ep. tezEventFromProto env ep = Inr event) events eps \<Longrightarrow>
     taGeneratedEventsFromList env eps acc = Inr (acc @ events)"
proof (induction events eps arbitrary: acc rule: list_all2_induct)
  case Nil
  then show ?case by simp
next
  case (Cons event events ep eps)
  then show ?case by (simp add: bindE_Inr)
qed

lemma list_all2_inverted:
  assumes "list_all2 (\<lambda>x y. f x = Inr y) xs ys"
    and "list_all (\<lambda>x. \<exists>y. f x = Inr y \<and> g y = Inr x) xs"
  shows "list_all2 (\<lambda>x y. g y = Inr x) xs ys"
  using assms(1)
proof (rule list.rel_mono_strong)
  fix x y
  assume "x \<in> set xs" and fx: "f x = Inr y"
  with assms(2) obtain y' where "f x = Inr y'" "g y' = Inr x"
    by (auto simp: list_all_iff)
  with fx show "g y = Inr x" by simp
qed

lemma fromProto_required_reads:
  assumes "proto_taskAttemptId p = Some (taToString env ta)"
    and "taFromString env (taToString env ta) = Inr (Some ta)"
    and "proto_state p = Some (of_nat (ordinal (stateValues env) st))"
    and "st \<in> set (stateValues env)" and "length (stateValues env) < 2 ^ 31"
  shows "fromProto_required env t p =
           Inr (t\<lparr> taskAttemptId := Some ta, state := Some st,
                   creationTime := getCreationTime p, allocationTime := getAllocationTime p,
                   startTime := getStartTime p, finishTime := getFinishTime p \<rparr>)"
  using assms
  by (simp add: fromProto_required_def getTaskAttemptId_def getState_def bindE_Inr
      valuesAt_ordinal)

lemma fromProto_creationCausalTA_reads:
  assumes "proto_creationCausalTA p = map_option (taToString env) x"
    and "case x of None \<Rightarrow> True | Some ta \<Rightarrow> taFromString env (taToString env ta) = Inr (Some ta)"
    and "creationCausalTA t = None"
  shows "fromProto_creationCausalTA env t p = Inr (t\<lparr>creationCausalTA := x\<rparr>)"
proof (cases x)
  case None
  with assms have "fromProto_creationCausalTA env t p = Inr t" "t = t\<lparr>creationCausalTA := x\<rparr>"
    by (simp_all add: fromProto_creationCausalTA_def)
  then show ?thesis by simp
next
  case (Some ta)
  with assms show ?thesis by (simp add: fromProto_creationCausalTA_def bindE_Inr)
qed

lemma fromProto_diagnostics_reads:
  assumes "proto_diagnostics p = x" and "diagnostics t = None"
  shows "fromProto_diagnostics t p = t\<lparr>diagnostics := x\<rparr>"
proof (cases x)
  case None
  with assms have "fromProto_diagnostics t p = t" "t = t\<lparr>diagnostics := x\<rparr>"
    by (simp_all add: fromProto_diagnostics_def)
  then show ?thesis by simp
next
  case (Some d)
  with assms show ?thesis by (simp add: fromProto_diagnostics_def)
qed

lemma fromProto_error_reads:
  assumes "proto_errorEnum p = map_option (errorName env) x"
    and "inj_on (errorName env) (set (errorValues env))"
    and "case x of None \<Rightarrow> True | Some er \<Rightarrow> er \<in> set (errorValues env)"
    and "error t = None"
  shows "fromProto_error env t p = Inr (t\<lparr>error := x\<rparr>)"
proof (cases x)
  case None
  with assms have "fromProto_error env t p = Inr t" "t = t\<lparr>error := x\<rparr>"
    by (simp_all add: fromProto_error_def)
  then show ?thesis by simp
next
  case (Some er)
  with assms show ?thesis by (simp add: fromProto_error_def bindE_Inr valueOf_name)
qed

lemma fromProto_counters_reads:
  assumes "rel_option (\<lambda>c cp. convertTezCountersToProto env c = Inr cp) x (proto_counters p)"
    and "case x of None \<Rightarrow> True
         | Some c \<Rightarrow> (case convertTezCountersToProto env c of
                       Inl e \<Rightarrow> False
                     | Inr cp \<Rightarrow> convertTezCountersFromProto env cp = Inr (Some c))"
    and "tezCounters t = None"
  shows "fromProto_counters env t p = Inr (t\<lparr>tezCounters := x\<rparr>)"
proof (cases x)
  case None
  with assms have "fromProto_counters env t p = Inr t" "t = t\<lparr>tezCounters := x\<rparr>"
    by (simp_all add: fromProto_counters_def)
  then show ?thesis by simp
next
  case (Some c)
  with assms(1) obtain cp where cp: "proto_counters p = Some cp"
    "convertTezCountersToProto env c = Inr cp"
    by (cases "proto_counters p") auto
  with Some assms(2) have "convertTezCountersFromProto env cp = Inr (Some c)" by simp
  with cp Some show ?thesis by (simp add: fromProto_counters_def bindE_Inr)
qed

lemma fromProto_dataEvents_reads:
  assumes "list_all2 (\<lambda>info ip. dataEventFromProto env ip = Inr info)
             (elements l) (proto_dataEvents p)"
    and "dataEvents t = None"
  shows "fromProto_dataEvents env t p = Inr (t\<lparr>dataEvents := nonempty_or_null l\<rparr>)"
proof (cases "elements l = []")
  case True
  with assms(1) have "proto_dataEvents p = []" by simp
  moreover from True have "nonempty_or_null l = None"
    by (cases l) (simp_all add: elements_def nonempty_or_null_def)
  ultimately have "fromProto_dataEvents env t p = Inr t"
    "t = t\<lparr>dataEvents := nonempty_or_null l\<rparr>"
    using assms(2) by (simp_all add: fromProto_dataEvents_def getDataEventsCount_def)
  then show ?thesis by simp
next
  case False
  with assms(1) have ne: "proto_dataEvents p \<noteq> []" by auto
  from False have l: "nonempty_or_null l = Some (elements l)"
    by (cases l) (simp_all add: elements_def nonempty_or_null_def)
  from dataEventsFromList_all2 [OF assms(1), of "[]"] ne l show ?thesis
    by (simp add: fromProto_dataEvents_def getDataEventsCount_def bindE_Inr)
qed

lemma fromProto_taGeneratedEvents_reads:
  assumes "list_all2 (\<lambda>event ep. tezEventFromProto env ep = Inr event)
             (elements l) (proto_taGeneratedEvents p)"
    and "taGeneratedEvents t = None"
  shows "fromProto_taGeneratedEvents env t p = Inr (t\<lparr>taGeneratedEvents := nonempty_or_null l\<rparr>)"
proof (cases "elements l = []")
  case True
  with assms(1) have "proto_taGeneratedEvents p = []" by simp
  moreover from True have "nonempty_or_null l = None"
    by (cases l) (simp_all add: elements_def nonempty_or_null_def)
  ultimately have "fromProto_taGeneratedEvents env t p = Inr t"
    "t = t\<lparr>taGeneratedEvents := nonempty_or_null l\<rparr>"
    using assms(2)
    by (simp_all add: fromProto_taGeneratedEvents_def getTaGeneratedEventsCount_def)
  then show ?thesis by simp
next
  case False
  with assms(1) have ne: "proto_taGeneratedEvents p \<noteq> []" by auto
  from False have l: "nonempty_or_null l = Some (elements l)"
    by (cases l) (simp_all add: elements_def nonempty_or_null_def)
  from taGeneratedEventsFromList_all2 [OF assms(1), of "[]"] ne l show ?thesis
    by (simp add: fromProto_taGeneratedEvents_def getTaGeneratedEventsCount_def bindE_Inr)
qed

lemma fromProto_containerId_reads:
  assumes "proto_containerId p = map_option (containerIdToString env) x"
    and "case x of None \<Rightarrow> True
         | Some c \<Rightarrow> toContainerId env (containerIdToString env c) = Inr (Some c)"
    and "containerId t = None"
  shows "fromProto_containerId env t p = Inr (t\<lparr>containerId := x\<rparr>)"
proof (cases x)
  case None
  with assms have "fromProto_containerId env t p = Inr t" "t = t\<lparr>containerId := x\<rparr>"
    by (simp_all add: fromProto_containerId_def)
  then show ?thesis by simp
next
  case (Some c)
  with assms show ?thesis by (simp add: fromProto_containerId_def bindE_Inr)
qed

lemma fromProto_nodeId_reads:
  assumes "proto_nodeId p = map_option (nodeIdToString env) x"
    and "case x of None \<Rightarrow> True | Some n \<Rightarrow> toNodeId env (nodeIdToString env n) = Inr (Some n)"
    and "nodeId t = None"
  shows "fromProto_nodeId env t p = Inr (t\<lparr>nodeId := x\<rparr>)"
proof (cases x)
  case None
  with assms have "fromProto_nodeId env t p = Inr t" "t = t\<lparr>nodeId := x\<rparr>"
    by (simp_all add: fromProto_nodeId_def)
  then show ?thesis by simp
next
  case (Some n)
  with assms show ?thesis by (simp add: fromProto_nodeId_def bindE_Inr)
qed

lemma fromProto_nodeHttpAddress_reads:
  assumes "proto_nodeHttpAddress p = x" and "nodeHttpAddress t = None"
  shows "fromProto_nodeHttpAddress t p = t\<lparr>nodeHttpAddress := x\<rparr>"
proof (cases x)
  case None
  with assms have "fromProto_nodeHttpAddress t p = t" "t = t\<lparr>nodeHttpAddress := x\<rparr>"
    by (simp_all add: fromProto_nodeHttpAddress_def)
  then show ?thesis by simp
next
  case (Some a)
  with assms show ?thesis by (simp add: fromProto_nodeHttpAddress_def)
qed

subsection \<open>Frames and replay\<close>









text \<open>The two scenarios of the specification, on the Reconstructor as modelled.\<close>

lemma scenario_A:
  "apply_event (apply_event unseen (Started 100)) (Finished 100 150 success) =
     \<lparr> entityState = TERMINAL success, started = Some 100, finished = Some 150,
       missingCreated = False \<rparr> \<and>
   duration (apply_event (apply_event unseen (Started 100)) (Finished 100 150 success)) = Some 50"
  by (simp add: unseen_def duration_def)

lemma scenario_B:
  "apply_event unseen (Finished 100 150 failed) =
     \<lparr> entityState = TERMINAL failed, started = Some 100, finished = Some 150,
       missingCreated = True \<rparr>"
  by (simp add: unseen_def)

subsection \<open>The samples, evaluated\<close>

lemma sampleSparseEvent_encodes:
  "toProto sampleCollaborators sampleSparseEvent = Inr sampleSparseProto"
  by (simp add: toProto_defs sample_defs sampleSparseProto_def sampleSparseEvent_def bindE_def)

lemma recovered_eq:
  "recovered this =
     emptyTaskAttemptFinishedEvent
       \<lparr> taskAttemptId := taskAttemptId this, state := state this,
         creationTime := creationTime this, allocationTime := allocationTime this,
         startTime := startTime this, finishTime := finishTime this,
         creationCausalTA := creationCausalTA this, diagnostics := diagnostics this,
         error := error this, tezCounters := tezCounters this,
         dataEvents := nonempty_or_null (dataEvents this),
         taGeneratedEvents := nonempty_or_null (taGeneratedEvents this),
         containerId := containerId this, nodeId := nodeId this,
         nodeHttpAddress := nodeHttpAddress this \<rparr>"
  by (cases this) (simp add: recovered_def emptyTaskAttemptFinishedEvent_def)

lemma sampleFullEvent_encodes:
  "toProto sampleCollaborators sampleFullEvent = Inr sampleFullProto"
  by (simp add: toProto_defs sample_defs sampleFullEvent_def sampleFullProto_def bindE_def)

lemma sampleFullProto_decodes:
  "fromProto sampleCollaborators emptyTaskAttemptFinishedEvent sampleFullProto =
     Inr (recovered sampleFullEvent)"
  by (simp add: fromProto_defs proto_getter_defs sample_defs sampleFullEvent_def
      sampleFullProto_def bindE_def valuesAt_def valueOf_def
      recovered_def nonempty_or_null_def)



lemma sampleFullEvent_wellformed:
  "taskAttemptId sampleFullEvent \<noteq> None" "state sampleFullEvent \<noteq> None"
  "enums_wellformed sampleCollaborators sampleFullEvent"
  "converters_invert sampleCollaborators sampleFullEvent"
  by (simp_all add: enums_wellformed_def converters_invert_def sample_defs sampleFullEvent_def
      inj_on_def)

section \<open>The claims\<close>

subsection \<open>Round trip\<close>

text \<open>
  \<^bold>\<open>C1\<close>, in the form that holds of the source. For an event whose task attempt id
  and state are set, on which the enums are well formed and the collaborators'
  converters invert each other:
  \<open>toProto\<close> returns a message, and \<open>fromProto\<close> of that message on an event made by the
  empty constructor returns the original event in every field the message carries
  (task attempt id, state, the four timestamps, creationCausalTA, diagnostics, error,
  counters, containerId, nodeId, nodeHttpAddress, and each list that is not empty).
  The vertex name and the two log URLs are not in the message and come back \<open>null\<close>;
  a list that was \<open>null\<close> or empty comes back \<open>null\<close>.
\<close>
theorem roundtrip_recovers_encoded_fields:
  assumes id: "taskAttemptId this \<noteq> None" and st: "state this \<noteq> None"
    and wf: "enums_wellformed env this"
    and inv: "converters_invert env this"
  shows "\<exists>p. toProto env this = Inr p \<and>
             fromProto env emptyTaskAttemptFinishedEvent p = Inr (recovered this)"
proof -
  from toProto_succeeds [OF id st inv] obtain p where p: "toProto env this = Inr p" by blast
  note f = toProto_fields [OF p]
  from id obtain ta where ta: "taskAttemptId this = Some ta" by auto
  from st obtain s where s: "state this = Some s" by auto
  let ?e = "emptyTaskAttemptFinishedEvent ::
    ('a, 'b, 'c, 'd, 'e, 'f, 'g, 'h) TaskAttemptFinishedEvent"
  define t1 where "t1 = ?e\<lparr> taskAttemptId := Some ta, state := Some s,
      creationTime := getCreationTime p, allocationTime := getAllocationTime p,
      startTime := getStartTime p, finishTime := getFinishTime p \<rparr>"
  define t2 where "t2 = t1\<lparr>creationCausalTA := creationCausalTA this\<rparr>"
  define t2d where "t2d = t2\<lparr>diagnostics := diagnostics this\<rparr>"
  define t3 where "t3 = t2d\<lparr>error := error this\<rparr>"
  define t4 where "t4 = t3\<lparr>tezCounters := tezCounters this\<rparr>"
  define t5 where "t5 = t4\<lparr>dataEvents := nonempty_or_null (dataEvents this)\<rparr>"
  define t6 where "t6 = t5\<lparr>taGeneratedEvents := nonempty_or_null (taGeneratedEvents this)\<rparr>"
  define t7 where "t7 = t6\<lparr>containerId := containerId this\<rparr>"
  define t8 where "t8 = t7\<lparr>nodeId := nodeId this\<rparr>"
  note ts = t8_def t7_def t6_def t5_def t4_def t3_def t2d_def t2_def t1_def
  have s1: "fromProto_required env ?e p = Inr t1"
    unfolding t1_def
  proof (rule fromProto_required_reads)
    show "proto_taskAttemptId p = Some (taToString env ta)" using f(1) ta by simp
    show "taFromString env (taToString env ta) = Inr (Some ta)"
      using inv ta by (simp add: converters_invert_def)
    show "proto_state p = Some (of_nat (ordinal (stateValues env) s))" using f(2) s by simp
    show "s \<in> set (stateValues env)" using wf s by (simp add: enums_wellformed_def)
    show "length (stateValues env) < 2 ^ 31" using wf by (simp add: enums_wellformed_def)
  qed
  have s2: "fromProto_creationCausalTA env t1 p = Inr t2"
    unfolding t2_def
  proof (rule fromProto_creationCausalTA_reads [OF f(7)])
    show "case creationCausalTA this of None \<Rightarrow> True
          | Some ta \<Rightarrow> taFromString env (taToString env ta) = Inr (Some ta)"
      using inv by (simp add: converters_invert_def)
    show "creationCausalTA t1 = None" by (simp add: t1_def emptyTaskAttemptFinishedEvent_def)
  qed
  have sd: "fromProto_diagnostics t2 p = t2d"
    unfolding t2d_def
    by (rule fromProto_diagnostics_reads [OF f(8)])
      (simp add: t2_def t1_def emptyTaskAttemptFinishedEvent_def)
  have s3: "fromProto_error env t2d p = Inr t3"
    unfolding t3_def
  proof (rule fromProto_error_reads [OF f(9)])
    show "inj_on (errorName env) (set (errorValues env))"
      using wf by (simp add: enums_wellformed_def)
    show "case error this of None \<Rightarrow> True | Some er \<Rightarrow> er \<in> set (errorValues env)"
      using wf by (simp add: enums_wellformed_def)
    show "error t2d = None" by (simp add: t2d_def t2_def t1_def emptyTaskAttemptFinishedEvent_def)
  qed
  have s4: "fromProto_counters env t3 p = Inr t4"
    unfolding t4_def
  proof (rule fromProto_counters_reads [OF f(10)])
    show "case tezCounters this of None \<Rightarrow> True
          | Some c \<Rightarrow> (case convertTezCountersToProto env c of
                        Inl e \<Rightarrow> False
                      | Inr cp \<Rightarrow> convertTezCountersFromProto env cp = Inr (Some c))"
      using inv by (simp add: converters_invert_def)
    show "tezCounters t3 = None"
      by (simp add: t3_def t2d_def t2_def t1_def emptyTaskAttemptFinishedEvent_def)
  qed
  have s5: "fromProto_dataEvents env t4 p = Inr t5"
    unfolding t5_def
  proof (rule fromProto_dataEvents_reads)
    show "list_all2 (\<lambda>info ip. dataEventFromProto env ip = Inr info)
            (elements (dataEvents this)) (proto_dataEvents p)"
      by (rule list_all2_inverted [OF f(11) converters_invert_dataEvents [OF inv]])
    show "dataEvents t4 = None"
      by (simp add: t4_def t3_def t2d_def t2_def t1_def emptyTaskAttemptFinishedEvent_def)
  qed
  have s6: "fromProto_taGeneratedEvents env t5 p = Inr t6"
    unfolding t6_def
  proof (rule fromProto_taGeneratedEvents_reads)
    show "list_all2 (\<lambda>event ep. tezEventFromProto env ep = Inr event)
            (elements (taGeneratedEvents this)) (proto_taGeneratedEvents p)"
      by (rule list_all2_inverted [OF f(12) converters_invert_taGeneratedEvents [OF inv]])
    show "taGeneratedEvents t5 = None"
      by (simp add: t5_def t4_def t3_def t2d_def t2_def t1_def emptyTaskAttemptFinishedEvent_def)
  qed
  have s7: "fromProto_containerId env t6 p = Inr t7"
    unfolding t7_def
  proof (rule fromProto_containerId_reads [OF f(13)])
    show "case containerId this of None \<Rightarrow> True
          | Some c \<Rightarrow> toContainerId env (containerIdToString env c) = Inr (Some c)"
      using inv by (simp add: converters_invert_def)
    show "containerId t6 = None"
      by (simp add: t6_def t5_def t4_def t3_def t2d_def t2_def t1_def
          emptyTaskAttemptFinishedEvent_def)
  qed
  have s8: "fromProto_nodeId env t7 p = Inr t8"
    unfolding t8_def
  proof (rule fromProto_nodeId_reads [OF f(14)])
    show "case nodeId this of None \<Rightarrow> True
          | Some n \<Rightarrow> toNodeId env (nodeIdToString env n) = Inr (Some n)"
      using inv by (simp add: converters_invert_def)
    show "nodeId t7 = None"
      by (simp add: ts emptyTaskAttemptFinishedEvent_def)
  qed
  have s9: "fromProto_nodeHttpAddress t8 p = t8\<lparr>nodeHttpAddress := nodeHttpAddress this\<rparr>"
    by (rule fromProto_nodeHttpAddress_reads [OF f(15)])
      (simp add: ts emptyTaskAttemptFinishedEvent_def)
  have times: "getCreationTime p = creationTime this" "getAllocationTime p = allocationTime this"
    "getStartTime p = startTime this" "getFinishTime p = finishTime this"
    using f(3-6)
    by (simp_all add: getCreationTime_def getAllocationTime_def getStartTime_def
        getFinishTime_def)
  have "fromProto env ?e p = Inr (t8\<lparr>nodeHttpAddress := nodeHttpAddress this\<rparr>)"
    by (simp add: fromProto_def bindE_Inr s1 s2 sd s3 s4 s5 s6 s7 s8 s9)
  also have "t8\<lparr>nodeHttpAddress := nodeHttpAddress this\<rparr> = recovered this"
    unfolding recovered_eq ts times using ta s by simp
  finally show ?thesis using p by blast
qed

theorem roundtrip_recovers_encoded_fields_witness:
  "taskAttemptId sampleFullEvent \<noteq> None \<and> state sampleFullEvent \<noteq> None \<and>
   enums_wellformed sampleCollaborators sampleFullEvent \<and>
   converters_invert sampleCollaborators sampleFullEvent \<and>
   (\<exists>p. toProto sampleCollaborators sampleFullEvent = Inr p \<and>
        fromProto sampleCollaborators emptyTaskAttemptFinishedEvent p =
          Inr (recovered sampleFullEvent))"
  using roundtrip_recovers_encoded_fields [OF sampleFullEvent_wellformed]
    sampleFullEvent_wellformed
  by simp

text \<open>Decoding does not give back an equal event in general: an event built with a vertex
  name and log URLs comes back without them.\<close>

theorem roundtrip_counterexample:
  "toProto sampleCollaborators sampleFullEvent = Inr sampleFullProto \<and>
   fromProto sampleCollaborators emptyTaskAttemptFinishedEvent sampleFullProto =
     Inr (recovered sampleFullEvent) \<and>
   recovered sampleFullEvent \<noteq> sampleFullEvent \<and>
   vertexName sampleFullEvent = Some ''Map 1'' \<and>
   vertexName (recovered sampleFullEvent) = None \<and>
   inProgressLogsUrl sampleFullEvent = Some ''http://node1:8042/logs/inprogress'' \<and>
   inProgressLogsUrl (recovered sampleFullEvent) = None \<and>
   completedLogsUrl sampleFullEvent = Some ''http://history:19888/logs/done'' \<and>
   completedLogsUrl (recovered sampleFullEvent) = None"
proof -
  have "vertexName sampleFullEvent = Some ''Map 1''"
    "inProgressLogsUrl sampleFullEvent = Some ''http://node1:8042/logs/inprogress''"
    "completedLogsUrl sampleFullEvent = Some ''http://history:19888/logs/done''"
    by (simp_all add: sampleFullEvent_def newTaskAttemptFinishedEvent_def)
  moreover have "vertexName (recovered sampleFullEvent) = None"
    "inProgressLogsUrl (recovered sampleFullEvent) = None"
    "completedLogsUrl (recovered sampleFullEvent) = None"
    by (simp_all add: recovered_def)
  ultimately show ?thesis
    using sampleFullEvent_encodes sampleFullProto_decodes by auto
qed

subsection \<open>The log URL fields\<close>

text \<open>
  \<^bold>\<open>C2\<close>, in the form that holds of the source. The full constructor assigns
  \<open>inProgressLogsUrl\<close> and \<open>completedLogsUrl\<close> from its sixteenth and seventeenth
  parameter, and the getters return what was passed: the fields are unset after it only
  when \<open>null\<close> was passed. After the empty constructor both are \<open>null\<close>.
\<close>
theorem full_constructor_stores_log_urls:
  "getInProgressLogsUrl
     (newTaskAttemptFinishedEvent taId vn st ft s er dg cn de tg ct cta alt cid nid ipl cpl nha) = ipl \<and>
   getCompletedLogsUrl
     (newTaskAttemptFinishedEvent taId vn st ft s er dg cn de tg ct cta alt cid nid ipl cpl nha) = cpl \<and>
   getInProgressLogsUrl emptyTaskAttemptFinishedEvent = None \<and>
   getCompletedLogsUrl emptyTaskAttemptFinishedEvent = None"
  by (simp add: getInProgressLogsUrl_def getCompletedLogsUrl_def newTaskAttemptFinishedEvent_def
      emptyTaskAttemptFinishedEvent_def)

text \<open>The fields do not stay unset after the full constructor: an event built with both
  URLs returns them.\<close>

theorem full_constructor_log_urls_counterexample:
  "getInProgressLogsUrl sampleFullEvent = Some ''http://node1:8042/logs/inprogress'' \<and>
   getCompletedLogsUrl sampleFullEvent = Some ''http://history:19888/logs/done''"
  by (simp add: getInProgressLogsUrl_def getCompletedLogsUrl_def sampleFullEvent_def
      newTaskAttemptFinishedEvent_def)

subsection \<open>Absent optional fields\<close>

text \<open>
  \<^bold>\<open>C3\<close>. Decoding is \<open>fromProto\<close> on an event made by the empty constructor. For each
  of creationCausalTA, diagnostics, error, counters, containerId, nodeId and
  nodeHttpAddress: when the message does not have the field, the decoded event's field
  is \<open>null\<close>, not a default value.
\<close>
theorem absent_optional_fields_decode_to_null:
  assumes "fromProto env emptyTaskAttemptFinishedEvent p = Inr e"
  shows "(\<not> hasCreationCausalTA p \<longrightarrow> creationCausalTA e = None) \<and>
         (\<not> hasDiagnostics p \<longrightarrow> diagnostics e = None) \<and>
         (\<not> hasErrorEnum p \<longrightarrow> error e = None) \<and>
         (\<not> hasCounters p \<longrightarrow> tezCounters e = None) \<and>
         (\<not> hasContainerId p \<longrightarrow> containerId e = None) \<and>
         (\<not> hasNodeId p \<longrightarrow> nodeId e = None) \<and>
         (\<not> hasNodeHttpAddress p \<longrightarrow> nodeHttpAddress e = None)"
  using fromProto_absent [OF assms]
  by (simp add: emptyTaskAttemptFinishedEvent_def)

theorem absent_optional_fields_decode_to_null_witness:
  "fromProto sampleCollaborators emptyTaskAttemptFinishedEvent sampleSparseProto =
     Inr sampleSparseDecoded \<and>
   \<not> hasCreationCausalTA sampleSparseProto \<and> creationCausalTA sampleSparseDecoded = None \<and>
   \<not> hasDiagnostics sampleSparseProto \<and> diagnostics sampleSparseDecoded = None \<and>
   \<not> hasErrorEnum sampleSparseProto \<and> error sampleSparseDecoded = None \<and>
   \<not> hasCounters sampleSparseProto \<and> tezCounters sampleSparseDecoded = None \<and>
   \<not> hasContainerId sampleSparseProto \<and> containerId sampleSparseDecoded = None \<and>
   \<not> hasNodeId sampleSparseProto \<and> nodeId sampleSparseDecoded = None \<and>
   \<not> hasNodeHttpAddress sampleSparseProto \<and> nodeHttpAddress sampleSparseDecoded = None"
proof -
  have absent: "\<not> hasCreationCausalTA sampleSparseProto" "\<not> hasDiagnostics sampleSparseProto"
    "\<not> hasErrorEnum sampleSparseProto" "\<not> hasCounters sampleSparseProto"
    "\<not> hasContainerId sampleSparseProto" "\<not> hasNodeId sampleSparseProto"
    "\<not> hasNodeHttpAddress sampleSparseProto"
    by (simp_all add: proto_getter_defs sampleSparseProto_def newBuilder_def)
  from absent_optional_fields_decode_to_null [OF sampleSparseProto_decodes] absent
    sampleSparseProto_decodes
  show ?thesis by simp
qed

subsection \<open>Timestamps\<close>

text \<open>
  \<^bold>\<open>C6\<close>, in the form that holds of the source. \<open>fromProto\<close> copies the four
  timestamps of the message into the event as they are (an absent one reads as 0) and
  checks nothing: the decoded event's timestamps are ordered exactly when the message's
  are.
\<close>
theorem decode_copies_timestamps:
  assumes "fromProto env this p = Inr e"
  shows "creationTime e = getCreationTime p \<and> allocationTime e = getAllocationTime p \<and>
         startTime e = getStartTime p \<and> finishTime e = getFinishTime p \<and>
         (timestamps_ordered e \<longleftrightarrow> proto_timestamps_ordered p)"
  using fromProto_times [OF assms]
  by (simp add: timestamps_ordered_def proto_timestamps_ordered_def)

theorem decode_copies_timestamps_witness:
  "fromProto sampleCollaborators emptyTaskAttemptFinishedEvent sampleSparseProto =
     Inr sampleSparseDecoded \<and>
   getCreationTime sampleSparseProto = 80 \<and> getAllocationTime sampleSparseProto = 90 \<and>
   getStartTime sampleSparseProto = 100 \<and> getFinishTime sampleSparseProto = 150 \<and>
   proto_timestamps_ordered sampleSparseProto \<and> timestamps_ordered sampleSparseDecoded"
  using decode_copies_timestamps [OF sampleSparseProto_decodes] sampleSparseProto_decodes
  by (simp add: timestamps_ordered_def sampleSparseDecoded_def emptyTaskAttemptFinishedEvent_def)

text \<open>A message with the finish time before the start time decodes, to an event with
  its timestamps out of order.\<close>

theorem decode_timestamp_order_counterexample:
  "fromProto sampleCollaborators emptyTaskAttemptFinishedEvent sampleDisorderedProto =
     Inr (emptyTaskAttemptFinishedEvent
           \<lparr> taskAttemptId := Some ''attempt_1_0001_1_00_000000_0'',
             state := Some ''SUCCEEDED'',
             creationTime := 80, allocationTime := 90, startTime := 150, finishTime := 100 \<rparr>) \<and>
   \<not> timestamps_ordered (emptyTaskAttemptFinishedEvent
           \<lparr> taskAttemptId := Some ''attempt_1_0001_1_00_000000_0'',
             state := Some ''SUCCEEDED'',
             creationTime := 80, allocationTime := 90, startTime := 150, finishTime := 100 \<rparr>
           :: sampleEvent)"
  by (simp add: fromProto_defs proto_getter_defs sample_defs sampleSparseProto_def
      sampleDisorderedProto_def
      bindE_def valuesAt_def timestamps_ordered_def)

subsection \<open>Encoding without the required references\<close>

text \<open>
  \<^bold>\<open>C5\<close>, in the form that holds of the source. When the task attempt id or the state
  of an event is \<open>null\<close>, \<open>toProto\<close> fails with a NullPointerException, and
  \<open>toProtoStream\<close> fails with it before anything is written: the output stream is as it
  was.
\<close>
theorem toProto_null_required_field:
  assumes "taskAttemptId this = None \<or> state this = None"
  shows "toProto env this = Inl NullPointerException \<and>
         toProtoStream env this outputStream = (Inl NullPointerException, outputStream)"
proof -
  have "toProto_required env this = Inl NullPointerException"
    using assms by (auto simp: toProto_required_def split: option.splits)
  then have "toProto env this = Inl NullPointerException"
    by (simp add: toProto_def bindE_def)
  then show ?thesis by (simp add: toProtoStream_def)
qed

theorem toProto_null_required_field_witness:
  "taskAttemptId (emptyTaskAttemptFinishedEvent :: sampleEvent) = None \<and>
   toProto sampleCollaborators emptyTaskAttemptFinishedEvent = Inl NullPointerException \<and>
   toProtoStream sampleCollaborators emptyTaskAttemptFinishedEvent [1, 0] =
     (Inl NullPointerException, [1, 0])"
proof -
  have h: "taskAttemptId (emptyTaskAttemptFinishedEvent :: sampleEvent) = None"
    by (simp add: emptyTaskAttemptFinishedEvent_def)
  from toProto_null_required_field [OF disjI1, OF h, of sampleCollaborators "[1, 0]"] h
  show ?thesis by simp
qed

text \<open>A timestamp cannot be unset: a \<open>long\<close> that was never given a value holds 0. An
  event with 0 in each timestamp is encoded, and its bytes are written.\<close>

theorem toProto_default_timestamps_counterexample:
  "creationTime sampleDefaultTimesEvent = 0 \<and> allocationTime sampleDefaultTimesEvent = 0 \<and>
   startTime sampleDefaultTimesEvent = 0 \<and> finishTime sampleDefaultTimesEvent = 0 \<and>
   toProto sampleCollaborators sampleDefaultTimesEvent =
     Inr (newBuilder\<lparr> proto_taskAttemptId := Some ''attempt_1_0001_1_00_000000_0'',
                      proto_state := Some 0,
                      proto_creationTime := Some 0,
                      proto_allocationTime := Some 0,
                      proto_startTime := Some 0,
                      proto_finishTime := Some 0 \<rparr>) \<and>
   toProtoStream sampleCollaborators sampleDefaultTimesEvent [] = (Inr (), [1, 0])"
  by (simp add: toProtoStream_def toProto_defs sample_defs sampleDefaultTimesEvent_def
      bindE_def proto_getter_defs)

subsection \<open>Enum values a reader does not know\<close>

text \<open>
  \<^bold>\<open>C10\<close>. \<open>fromProto\<close> is not total on messages whose enum values are unknown. Once
  the task attempt id has been read: a state ordinal outside \<open>0 .. length values() - 1\<close>
  ends the call with an ArrayIndexOutOfBoundsException; and with the ordinal in range
  and the causal attempt id (if any) read, an error name that is no constant's name ends
  it with an IllegalArgumentException. Both are unchecked runtime exceptions, not the
  IOException the method declares.
\<close>
theorem fromProto_unknown_enum_value_throws:
  assumes "taFromString env (getTaskAttemptId p) = Inr taId"
  shows "(\<not> (0 \<le> sint (getState p) \<and> sint (getState p) < int (length (stateValues env))) \<longrightarrow>
            fromProto env this p = Inl (ArrayIndexOutOfBoundsException (sint (getState p))) \<and>
            is_runtime_exception (ArrayIndexOutOfBoundsException (sint (getState p)))) \<and>
         (\<forall>s. 0 \<le> sint (getState p) \<and> sint (getState p) < int (length (stateValues env)) \<and>
              (case proto_creationCausalTA p of
                 None \<Rightarrow> True
               | Some c \<Rightarrow> \<exists>r. taFromString env c = Inr r) \<and>
              proto_errorEnum p = Some s \<and> s \<notin> errorName env ` set (errorValues env) \<longrightarrow>
            fromProto env this p = Inl (IllegalArgumentException s) \<and>
            is_runtime_exception (IllegalArgumentException s))"
proof (intro conjI allI impI)
  assume "\<not> (0 \<le> sint (getState p) \<and> sint (getState p) < int (length (stateValues env)))"
  then have "valuesAt (stateValues env) (getState p) =
      Inl (ArrayIndexOutOfBoundsException (sint (getState p)))"
    by (rule valuesAt_out_of_range)
  with assms have "fromProto_required env this p =
      Inl (ArrayIndexOutOfBoundsException (sint (getState p)))"
    by (simp add: fromProto_required_def bindE_def)
  then show "fromProto env this p = Inl (ArrayIndexOutOfBoundsException (sint (getState p)))"
    by (simp add: fromProto_def bindE_def)
next
  show "is_runtime_exception (ArrayIndexOutOfBoundsException (sint (getState p)))" by simp
next
  fix s
  assume a: "0 \<le> sint (getState p) \<and> sint (getState p) < int (length (stateValues env)) \<and>
              (case proto_creationCausalTA p of
                 None \<Rightarrow> True
               | Some c \<Rightarrow> \<exists>r. taFromString env c = Inr r) \<and>
              proto_errorEnum p = Some s \<and> s \<notin> errorName env ` set (errorValues env)"
  then have "\<exists>st. valuesAt (stateValues env) (getState p) = Inr st"
    by (simp add: valuesAt_def)
  with assms obtain t1 where t1: "fromProto_required env this p = Inr t1"
    by (auto simp: fromProto_required_def bindE_def)
  from a obtain t2 where t2: "fromProto_creationCausalTA env t1 p = Inr t2"
    by (cases "proto_creationCausalTA p") (auto simp: fromProto_creationCausalTA_def bindE_def)
  from a have "valueOf (errorName env) (errorValues env) s = Inl (IllegalArgumentException s)"
    by (simp add: valueOf_unknown)
  with a have "fromProto_error env (fromProto_diagnostics t2 p) p = Inl (IllegalArgumentException s)"
    by (simp add: fromProto_error_def bindE_def)
  with t1 t2 show "fromProto env this p = Inl (IllegalArgumentException s)"
    by (simp add: fromProto_def bindE_def)
next
  fix s show "is_runtime_exception (IllegalArgumentException s)" by simp
qed

theorem fromProto_unknown_enum_value_throws_witness:
  "fromProto sampleCollaborators emptyTaskAttemptFinishedEvent sampleUnknownStateProto =
     Inl (ArrayIndexOutOfBoundsException 7) \<and>
   fromProto sampleCollaborators emptyTaskAttemptFinishedEvent sampleUnknownErrorProto =
     Inl (IllegalArgumentException ''NO_SUCH_CAUSE'')"
proof -
  have id1: "taFromString sampleCollaborators (getTaskAttemptId sampleUnknownStateProto) =
      Inr (Some ''attempt_1_0001_1_00_000000_0'')"
    and id2: "taFromString sampleCollaborators (getTaskAttemptId sampleUnknownErrorProto) =
      Inr (Some ''attempt_1_0001_1_00_000000_0'')"
    by (simp_all add: sample_defs sampleUnknownStateProto_def sampleSparseProto_def
        sampleUnknownErrorProto_def proto_getter_defs)
  have st1: "sint (getState sampleUnknownStateProto) = 7"
    and st2: "sint (getState sampleUnknownErrorProto) = 0"
    and len: "length (stateValues sampleCollaborators) = 3"
    and cc: "proto_creationCausalTA sampleUnknownErrorProto = None"
    and er: "proto_errorEnum sampleUnknownErrorProto = Some ''NO_SUCH_CAUSE''"
    and un: "''NO_SUCH_CAUSE'' \<notin> errorName sampleCollaborators ` set (errorValues sampleCollaborators)"
    by (simp_all add: sample_defs sampleUnknownStateProto_def sampleSparseProto_def
        sampleUnknownErrorProto_def proto_getter_defs)
  from fromProto_unknown_enum_value_throws [OF id1, of emptyTaskAttemptFinishedEvent]
       fromProto_unknown_enum_value_throws [OF id2, of emptyTaskAttemptFinishedEvent]
       st1 st2 len cc er un
  show ?thesis by simp
qed

subsection \<open>Reading from a stream\<close>

text \<open>
  \<^bold>\<open>C4\<close>, in the form that holds of the source. When the parser throws,
  \<open>fromProtoStream\<close> fails with the parser's exception, the same one; when the stream
  holds no message (\<open>parseDelimitedFrom\<close> returns \<open>null\<close>), it fails with the IOException
  "No data found in stream"; and when a message is parsed, its result is that of
  \<open>fromProto\<close> on the message, an exception included. So the failures without a message
  are not the only ones: \<open>fromProtoStream\<close> fails exactly when no message is parsed or
  \<open>fromProto\<close> fails on the parsed message.
\<close>
theorem fromProtoStream_fails_without_frame:
  "(\<forall>x. fst (parseDelimitedFrom env inputStream) = Inl x \<longrightarrow>
        fst (fromProtoStream env this inputStream) = Inl x) \<and>
   (fst (parseDelimitedFrom env inputStream) = Inr None \<longrightarrow>
      fst (fromProtoStream env this inputStream) = Inl (IOException ''No data found in stream'')) \<and>
   (\<forall>proto. fst (parseDelimitedFrom env inputStream) = Inr (Some proto) \<longrightarrow>
        fst (fromProtoStream env this inputStream) = fromProto env this proto) \<and>
   ((\<exists>x. fst (fromProtoStream env this inputStream) = Inl x) \<longleftrightarrow>
      (\<exists>x. fst (parseDelimitedFrom env inputStream) = Inl x) \<or>
      fst (parseDelimitedFrom env inputStream) = Inr None \<or>
      (\<exists>proto x. fst (parseDelimitedFrom env inputStream) = Inr (Some proto) \<and>
                 fromProto env this proto = Inl x))"
proof (cases "parseDelimitedFrom env inputStream")
  case (Pair r rest)
  show ?thesis
  proof (cases r)
    case (Inl x)
    with Pair show ?thesis by (simp add: fromProtoStream_def)
  next
    case (Inr m)
    with Pair show ?thesis by (cases m) (simp_all add: fromProtoStream_def)
  qed
qed

theorem fromProtoStream_fails_without_frame_witness:
  "fst (parseDelimitedFrom sampleCollaborators []) = Inr None \<and>
   fst (fromProtoStream sampleCollaborators (emptyTaskAttemptFinishedEvent :: sampleEvent) []) =
     Inl (IOException ''No data found in stream'') \<and>
   fst (parseDelimitedFrom sampleCollaborators [2, 1]) = Inl (IOException ''truncated message'') \<and>
   fst (fromProtoStream sampleCollaborators (emptyTaskAttemptFinishedEvent :: sampleEvent) [2, 1]) =
     Inl (IOException ''truncated message'') \<and>
   fst (parseDelimitedFrom sampleCollaborators [1, 0]) =
     Inr (Some (newBuilder\<lparr> proto_taskAttemptId := Some ''attempt_1_0001_1_00_000000_0'',
                              proto_state := Some 0 \<rparr>)) \<and>
   fst (fromProtoStream sampleCollaborators (emptyTaskAttemptFinishedEvent :: sampleEvent) [1, 0]) =
     fromProto sampleCollaborators emptyTaskAttemptFinishedEvent
       (newBuilder\<lparr> proto_taskAttemptId := Some ''attempt_1_0001_1_00_000000_0'',
                    proto_state := Some 0 \<rparr>)"
proof -
  have h1: "fst (parseDelimitedFrom sampleCollaborators []) = Inr None"
    and h2: "fst (parseDelimitedFrom sampleCollaborators [2, 1]) =
      Inl (IOException ''truncated message'')"
    and h3: "fst (parseDelimitedFrom sampleCollaborators [1, 0]) =
      Inr (Some (newBuilder\<lparr> proto_taskAttemptId := Some ''attempt_1_0001_1_00_000000_0'',
                               proto_state := Some 0 \<rparr>))"
    by (simp_all add: sample_defs)
  from fromProtoStream_fails_without_frame
      [of sampleCollaborators "[]" "emptyTaskAttemptFinishedEvent :: sampleEvent"]
    fromProtoStream_fails_without_frame
      [of sampleCollaborators "[2, 1]" "emptyTaskAttemptFinishedEvent :: sampleEvent"]
    fromProtoStream_fails_without_frame
      [of sampleCollaborators "[1, 0]" "emptyTaskAttemptFinishedEvent :: sampleEvent"]
    h1 h2 h3
  show ?thesis by simp
qed

text \<open>A stream that holds a whole message on which \<open>fromProto\<close> fails.\<close>

theorem fromProtoStream_parsed_frame_counterexample:
  "fst (parseDelimitedFrom sampleCollaborators [1, 7]) = Inr (Some sampleUnknownStateProto) \<and>
   fst (fromProtoStream sampleCollaborators (emptyTaskAttemptFinishedEvent :: sampleEvent) [1, 7]) =
     Inl (ArrayIndexOutOfBoundsException 7)"
  by (simp add: fromProtoStream_def fromProto_defs proto_getter_defs sample_defs
      sampleUnknownStateProto_def bindE_def
      valuesAt_def)

subsection \<open>Empty lists\<close>

text \<open>
  \<^bold>\<open>C9\<close>. Encoding does not tell an empty list from no list. For an event whose
  dataEvents (or taGeneratedEvents) is present and empty, the message \<open>toProto\<close> returns
  has no entry for the list, and \<open>fromProto\<close> of that message on an event made by the
  empty constructor leaves the list \<open>null\<close>: the empty list does not survive.
\<close>
theorem empty_list_decodes_to_null:
  assumes "toProto env this = Inr p"
    and "fromProto env emptyTaskAttemptFinishedEvent p = Inr e"
  shows "(dataEvents this = Some [] \<longrightarrow>
            proto_dataEvents p = [] \<and> dataEvents e = None \<and> dataEvents e \<noteq> dataEvents this) \<and>
         (taGeneratedEvents this = Some [] \<longrightarrow>
            proto_taGeneratedEvents p = [] \<and> taGeneratedEvents e = None \<and>
            taGeneratedEvents e \<noteq> taGeneratedEvents this)"
proof (intro conjI impI)
  assume a: "dataEvents this = Some []"
  with toProto_fields(11) [OF assms(1)] show p: "proto_dataEvents p = []"
    by (simp add: elements_def)
  from fromProto_absent(5) [OF assms(2) p] show n: "dataEvents e = None"
    by (simp add: emptyTaskAttemptFinishedEvent_def)
  from a n show "dataEvents e \<noteq> dataEvents this" by simp
next
  assume a: "taGeneratedEvents this = Some []"
  with toProto_fields(12) [OF assms(1)] show p: "proto_taGeneratedEvents p = []"
    by (simp add: elements_def)
  from fromProto_absent(6) [OF assms(2) p] show n: "taGeneratedEvents e = None"
    by (simp add: emptyTaskAttemptFinishedEvent_def)
  from a n show "taGeneratedEvents e \<noteq> taGeneratedEvents this" by simp
qed

theorem empty_list_decodes_to_null_witness:
  "dataEvents sampleSparseEvent = Some [] \<and> taGeneratedEvents sampleSparseEvent = Some [] \<and>
   toProto sampleCollaborators sampleSparseEvent = Inr sampleSparseProto \<and>
   proto_dataEvents sampleSparseProto = [] \<and> proto_taGeneratedEvents sampleSparseProto = [] \<and>
   (\<exists>e. fromProto sampleCollaborators emptyTaskAttemptFinishedEvent sampleSparseProto = Inr e \<and>
        dataEvents e = None \<and> taGeneratedEvents e = None)"
proof -
  have l: "dataEvents sampleSparseEvent = Some []" "taGeneratedEvents sampleSparseEvent = Some []"
    by (simp_all add: sampleSparseEvent_def newTaskAttemptFinishedEvent_def)
  from empty_list_decodes_to_null [OF sampleSparseEvent_encodes sampleSparseProto_decodes] l
    sampleSparseEvent_encodes sampleSparseProto_decodes
  show ?thesis by simp
qed

subsection \<open>Replay\<close>

text \<open>
  \<^bold>\<open>C7\<close>. On the Reconstructor as the specification describes it: for every entity state
  and every event, applying the event a second time changes nothing. \<open>apply_event\<close> is a
  function of its two arguments and nothing else.
\<close>
theorem apply_event_idempotent: "apply_event (apply_event s e) e = apply_event s e"
  by (cases e; cases "entityState s") simp_all

theorem apply_event_idempotent_witness:
  "apply_event (apply_event unseen (Finished 100 150 failed)) (Finished 100 150 failed) =
     \<lparr> entityState = TERMINAL failed, started = Some 100, finished = Some 150,
       missingCreated = True \<rparr> \<and>
   apply_event (apply_event (apply_event unseen (Started 100)) (Finished 100 150 success))
       (Finished 100 150 success) =
     \<lparr> entityState = TERMINAL success, started = Some 100, finished = Some 150,
       missingCreated = False \<rparr>"
  using apply_event_idempotent [of unseen "Finished 100 150 failed"]
    apply_event_idempotent [of "apply_event unseen (Started 100)" "Finished 100 150 success"]
    scenario_A scenario_B
  by simp

subsection \<open>Frames\<close>



end
